theory Spec2Isabelle
  imports Main "HOL-Library.AList"
begin

section \<open>JSON values and feature records\<close>

text \<open>
  A feature is what \<^verbatim>\<open>feature.json\<close> holds: an object with an open set of fields
  (\<^verbatim>\<open>[key: string]: unknown\<close> in the \<^verbatim>\<open>Feature\<close> interface). It is modelled as a
  map from field names to JSON values, so that an absent field (\<^verbatim>\<open>undefined\<close> in the
  source) is \<open>None\<close>. A \<^verbatim>\<open>Partial<Feature>\<close> is the same kind of map. Values are the
  values JSON can carry, which is what reaches the loader from a parsed file or a parsed
  request body; numbers are opaque to every operation below and kept as integers.
\<close>

datatype json =
    JNull
  | JBool bool
  | JNum int
  | JStr string
  | JArr "json list"
  | JObj "(string \<times> json) list"

type_synonym Feature = "string \<rightharpoonup> json"

text \<open>JavaScript truthiness of a field that may be absent.\<close>

fun truthy :: "json option \<Rightarrow> bool" where
  "truthy None = False"
| "truthy (Some JNull) = False"
| "truthy (Some (JBool b)) = b"
| "truthy (Some (JNum n)) = (n \<noteq> 0)"
| "truthy (Some (JStr s)) = (s \<noteq> [])"
| "truthy (Some (JArr xs)) = True"
| "truthy (Some (JObj kvs)) = True"

text \<open>
  \<^verbatim>\<open>a === b\<close> on two fields: primitives compare by value, two absent fields are equal,
  and arrays and objects that come from different parsed records are never identical.
\<close>

fun strict_eq :: "json option \<Rightarrow> json option \<Rightarrow> bool" where
  "strict_eq None None = True"
| "strict_eq (Some JNull) (Some JNull) = True"
| "strict_eq (Some (JBool a)) (Some (JBool b)) = (a = b)"
| "strict_eq (Some (JNum a)) (Some (JNum b)) = (a = b)"
| "strict_eq (Some (JStr a)) (Some (JStr b)) = (a = b)"
| "strict_eq _ _ = False"

text \<open>
  A thrown JavaScript value: whether it is an instance of the SDK's \<^verbatim>\<open>AbortError\<close>
  class, its \<^verbatim>\<open>name\<close> and its \<^verbatim>\<open>message\<close> properties.
\<close>

datatype error = JsError (instance_of_AbortError: bool) (error_name: string) (error_message: string)

definition Error :: "string \<Rightarrow> error" where
  "Error msg = JsError False ''Error'' msg"

section \<open>The Feature Store (FeatureLoader in feature-loader.ts)\<close>

text \<open>
  The store of one project is the directory \<^verbatim>\<open>.automaker/features\<close> under its
  \<^verbatim>\<open>projectPath\<close>: one folder per feature, named by the feature identifier, holding
  \<^verbatim>\<open>feature.json\<close>. It is an association list from folder name to the parsed record, in
  directory order. The \<^verbatim>\<open>projectPath\<close> argument of every operation only selects this
  directory, so the operations take the directory itself. For \<^verbatim>\<open>get\<close> and
  \<^verbatim>\<open>update\<close> a \<^verbatim>\<open>featureId\<close> is the plain name of a folder; \<^verbatim>\<open>delete\<close>, which
  removes a path with everything under it, resolves its \<^verbatim>\<open>featureId\<close> as
  \<^verbatim>\<open>path.join\<close> does. A folder is listed when its \<^verbatim>\<open>feature.json\<close> exists, and
  every file parses to an object; reads and writes of existing files do not fail. The
  loader's console output is not part of the state.
\<close>

type_synonym store = "(string \<times> Feature) list"

definition readFile :: "store \<Rightarrow> string \<Rightarrow> Feature option" where
  "readFile s featureId = map_of s featureId"

definition writeFile :: "store \<Rightarrow> string \<Rightarrow> Feature \<Rightarrow> store" where
  "writeFile s featureId feature = AList.update featureId feature s"

text \<open>\<^verbatim>\<open>get\<close>: the parsed file, or \<^verbatim>\<open>null\<close> when the file does not exist (ENOENT).\<close>

definition FeatureLoader_get :: "store \<Rightarrow> string \<Rightarrow> Feature option" where
  "FeatureLoader_get s featureId = readFile s featureId"

text \<open>
  \<^verbatim>\<open>update\<close>: read, throw when absent, merge by object spread
  \<^verbatim>\<open>{ ...feature, ...updates }\<close>, write back, return the merged record.
\<close>

definition FeatureLoader_update ::
  "store \<Rightarrow> string \<Rightarrow> Feature \<Rightarrow> error + (Feature \<times> store)" where
  "FeatureLoader_update s featureId updates =
     (case FeatureLoader_get s featureId of
        None \<Rightarrow> Inl (Error (''Feature '' @ featureId @ '' not found''))
      | Some feature \<Rightarrow>
          (let updatedFeature = feature ++ updates
           in Inr (updatedFeature, writeFile s featureId updatedFeature)))"











section \<open>The Status Mutation Gateway (UpdateFeatureStatus tool of the MCP server factory)\<close>

text \<open>
  Modelled from the spec: the Electron feature loader (\<^verbatim>\<open>require("./feature-loader")\<close> in
  the MCP server factory and in the executor) is not among the sources. Its
  \<^verbatim>\<open>loadFeatures(projectPath)\<close> is the Feature Store's \<^verbatim>\<open>list(projectPath)\<close>, a sequence
  of features (spec, section 6): the records of the store, in directory order.
\<close>

definition loadFeatures :: "store \<Rightarrow> Feature list" where
  "loadFeatures s = map snd s"

text \<open>
  Modelled from the spec: \<^verbatim>\<open>updateFeatureStatus(featureId, status, projectPath)\<close> of the
  same absent loader, the callback the executor binds into the gateway. The spec (section
  4.2) has the status applied through the Feature Store's update operation, that is
  \<^verbatim>\<open>update(projectPath, featureId, { status })\<close>. The result is the error thrown, if any,
  and the store.
\<close>

definition updateFeatureStatus :: "string \<Rightarrow> string \<Rightarrow> store \<Rightarrow> error option \<times> store" where
  "updateFeatureStatus featureId status s =
     (case FeatureLoader_update s featureId [''status'' \<mapsto> JStr status] of
        Inl e \<Rightarrow> (Some e, s)
      | Inr (feature, s') \<Rightarrow> (None, s'))"

text \<open>
  The process the gateway and the executor run in: the feature directory and what was
  written with \<^verbatim>\<open>console.error\<close> (label and error). Informational \<^verbatim>\<open>console.log\<close>
  lines are not kept.
\<close>

record host =
  features :: store
  console_error :: "(string \<times> error) list"

text \<open>\<^verbatim>\<open>{ content: [{ type: "text", text }] }\<close>, the value a tool call resolves to.\<close>

datatype tool_result = Content_text string

definition dq :: string where
  "dq = [CHR 0x22]"

text \<open>\<^verbatim>\<open>features.find((f) => f.id === args.featureId)\<close>, with a string argument.\<close>

definition find_by_id :: "Feature list \<Rightarrow> string \<Rightarrow> Feature option" where
  "find_by_id fs featureId = List.find (\<lambda>f. f ''id'' = Some (JStr featureId)) fs"

definition direct_message :: "string \<Rightarrow> string \<Rightarrow> string" where
  "direct_message featureId finalStatus =
     ''Successfully updated feature '' @ featureId @ '' to status '' @ dq @ finalStatus @ dq"

definition converted_message :: "string \<Rightarrow> string \<Rightarrow> string \<Rightarrow> string" where
  "converted_message featureId finalStatus status =
     ''Successfully updated feature '' @ featureId @ '' to status '' @ dq @ finalStatus @ dq
       @ '' (converted from '' @ dq @ status @ dq @ '' because skipTests=true)''"

text \<open>
  The body of the handler's \<^verbatim>\<open>try\<close> block. \<open>Inl e\<close> is a throw inside the block; the
  callback is the first parameter of \<^verbatim>\<open>createFeatureToolsServer\<close>.
\<close>

definition UpdateFeatureStatus_try ::
  "(string \<Rightarrow> string \<Rightarrow> store \<Rightarrow> error option \<times> store) \<Rightarrow> string \<Rightarrow> string \<Rightarrow> store
     \<Rightarrow> (error + tool_result) \<times> store" where
  "UpdateFeatureStatus_try updateFeatureStatusCallback featureId status s =
     (case find_by_id (loadFeatures s) featureId of
        None \<Rightarrow> (Inl (Error (''Feature '' @ featureId @ '' not found'')), s)
      | Some feature \<Rightarrow>
          (let finalStatus =
                 (if status = ''verified'' \<and> feature ''skipTests'' = Some (JBool True)
                  then ''waiting_approval'' else status)
           in case updateFeatureStatusCallback featureId finalStatus s of
                (Some e, s') \<Rightarrow> (Inl e, s')
              | (None, s') \<Rightarrow>
                  (let statusMessage =
                         (if finalStatus \<noteq> status
                          then converted_message featureId finalStatus status
                          else direct_message featureId finalStatus)
                   in (Inr (Content_text statusMessage), s'))))"

text \<open>
  The handler: the \<^verbatim>\<open>catch\<close> block logs the error and resolves to a text result. \<open>Inl\<close>
  in the result would be a rejection reaching the caller of the tool.
\<close>

definition UpdateFeatureStatus ::
  "(string \<Rightarrow> string \<Rightarrow> store \<Rightarrow> error option \<times> store) \<Rightarrow> string \<Rightarrow> string \<Rightarrow> 'a host_scheme
     \<Rightarrow> (error + tool_result) \<times> 'a host_scheme" where
  "UpdateFeatureStatus updateFeatureStatusCallback featureId status h =
     (case UpdateFeatureStatus_try updateFeatureStatusCallback featureId status (features h) of
        (Inr r, s') \<Rightarrow> (Inr r, h\<lparr>features := s'\<rparr>)
      | (Inl e, s') \<Rightarrow>
          (Inr (Content_text (''Failed to update feature status: '' @ error_message e)),
           h\<lparr>features := s',
             console_error := console_error h
               @ [(''[McpServerFactory] UpdateFeatureStatus tool error:'', e)]\<rparr>))"

text \<open>
  Every record's \<^verbatim>\<open>id\<close> names the folder it is stored in, as \<^verbatim>\<open>create\<close> writes it
  (\<^verbatim>\<open>id: featureId\<close> comes last in the object it stores).
\<close>

definition store_ok :: "store \<Rightarrow> bool" where
  "store_ok s = list_all (\<lambda>(k, f). f ''id'' = Some (JStr k)) s"

section \<open>The agent runtime as the executor sees it\<close>

text \<open>
  A content block of an assistant message: \<^verbatim>\<open>block.type\<close> is \<^verbatim>\<open>"text"\<close> (with
  \<^verbatim>\<open>block.text\<close>), \<^verbatim>\<open>"tool_use"\<close> (with \<^verbatim>\<open>block.name\<close> and \<^verbatim>\<open>block.input\<close>) or
  something that is ignored.
\<close>

datatype block = Text_block string | Tool_use string json | Other_block

text \<open>
  A streamed message either passes the test
  \<^verbatim>\<open>msg.type === "assistant" && msg.message?.content\<close> and carries its blocks, or not.
\<close>

datatype sdk_message = Assistant "block list" | Other_message

text \<open>
  What one call of \<^verbatim>\<open>query({ prompt, options })\<close> does, seen from the process: between two
  streamed messages the agent may call the \<^verbatim>\<open>UpdateFeatureStatus\<close> tool of the MCP server
  it was given; each message arrives at the \<^verbatim>\<open>for await\<close> loop, and the flag says what
  \<^verbatim>\<open>execution.isActive()\<close> answers when it arrives; the stream then ends or its iterator
  throws. A run of the agent is finite here: a stream that never ends gives a call that
  never returns, about which nothing is stated below.
\<close>

datatype agent_step = Gateway_call string string | Yields bool sdk_message

datatype stream_end = Exhausted | Raises error

type_synonym agent_run = "agent_step list \<times> stream_end"

text \<open>
  A template literal is kept as its pieces: literal text and interpolated values, so that
  no rendering of a non-string value is invented. Text is kept as bytes; the pictographs
  that open some lines of the source are their UTF-8 encodings.
\<close>

datatype piece = Lit string | Val "json option"

type_synonym template = "piece list"

definition nl :: string where "nl = [CHR 0x0A]"

text \<open>
  The prompt builder is not among the sources: a prompt it builds is kept as the name of
  the builder with its arguments, and a prompt written in the executor as its template.
\<close>

datatype prompt =
    buildFeaturePrompt Feature
  | buildResumePrompt Feature string
  | Prompt_literal template

datatype system_prompt = getCodingPrompt | getVerificationPrompt | System_prompt_literal string

text \<open>
  The options handed to \<^verbatim>\<open>query\<close>, as far as they are data (the working directory, the
  MCP server object and the abort controller are left out).
\<close>

record options =
  model :: string
  systemPrompt :: system_prompt
  maxTurns :: nat
  allowedTools :: "string list"
  permissionMode :: string
  sandbox_enabled :: bool

text \<open>
  The agent is a parameter of every run: a function from the prompt and the options of
  \<^verbatim>\<open>query({ prompt, options })\<close> to what the agent then does.
\<close>

type_synonym agent = "prompt \<Rightarrow> options \<Rightarrow> agent_run"

definition implement_options :: options where
  "implement_options =
     \<lparr>model = ''claude-opus-4-5-20251101'', systemPrompt = getCodingPrompt, maxTurns = 1000,
      allowedTools = [''Read'', ''Write'', ''Edit'', ''Glob'', ''Grep'', ''Bash'', ''WebSearch'',
                      ''WebFetch'', ''mcp__automaker-tools__UpdateFeatureStatus''],
      permissionMode = ''acceptEdits'', sandbox_enabled = True\<rparr>"

definition resume_options :: options where
  "resume_options =
     \<lparr>model = ''claude-opus-4-5-20251101'', systemPrompt = getVerificationPrompt, maxTurns = 1000,
      allowedTools = [''Read'', ''Write'', ''Edit'', ''Glob'', ''Grep'', ''Bash'', ''WebSearch'',
                      ''WebFetch'', ''mcp__automaker-tools__UpdateFeatureStatus''],
      permissionMode = ''acceptEdits'', sandbox_enabled = True\<rparr>"

definition commit_options :: options where
  "commit_options =
     \<lparr>model = ''claude-sonnet-4-20250514'',
      systemPrompt = System_prompt_literal
        (''You are a git assistant. Your only task is to commit the current changes with a proper commit message.''
           @ nl @ nl
         @ ''IMPORTANT RULES:'' @ nl
         @ ''- DO NOT modify any code'' @ nl
         @ ''- DO NOT write tests'' @ nl
         @ ''- DO NOT do anything except committing the existing changes'' @ nl
         @ ''- Use the git command line tools via Bash''),
      maxTurns = 10,
      allowedTools = [''Bash'', ''mcp__automaker-tools__UpdateFeatureStatus''],
      permissionMode = ''acceptEdits'', sandbox_enabled = False\<rparr>"

text \<open>The prompt of a commit-only run.\<close>

definition commit_prompt :: "Feature \<Rightarrow> template" where
  "commit_prompt feature =
     [Lit (''Please commit the current changes with this commit message:'' @ nl @ nl @ dq),
      Val (feature ''category''), Lit '': '', Val (feature ''description''),
      Lit (dq @ nl @ nl
           @ ''Steps:'' @ nl
           @ ''1. Run `git add .` to stage all changes'' @ nl
           @ ''2. Run `git commit -m '' @ dq @ ''message'' @ dq @ ''` with the provided message'' @ nl
           @ ''3. Report success'' @ nl @ nl
           @ ''Do NOT modify any code or run tests. Just commit the existing changes.'')]"

section \<open>The state of a run (feature-executor.js)\<close>

text \<open>The pictographs of the source, as UTF-8 bytes.\<close>

definition clipboard :: string where "clipboard = [CHR 0xF0, CHR 0x9F, CHR 0x93, CHR 0x8B]"
definition high_voltage :: string where "high_voltage = [CHR 0xE2, CHR 0x9A, CHR 0xA1]"
definition check_mark_button :: string where "check_mark_button = [CHR 0xE2, CHR 0x9C, CHR 0x85]"
definition check_mark :: string where "check_mark = [CHR 0xE2, CHR 0x9C, CHR 0x93]"
definition ballot_x :: string where "ballot_x = [CHR 0xE2, CHR 0x9C, CHR 0x97]"
definition wrench :: string where "wrench = [CHR 0xF0, CHR 0x9F, CHR 0x94, CHR 0xA7]"
definition memo :: string where "memo = [CHR 0xF0, CHR 0x9F, CHR 0x93, CHR 0x9D]"
definition arrows :: string where "arrows = [CHR 0xF0, CHR 0x9F, CHR 0x94, CHR 0x84]"
definition warning_sign :: string where "warning_sign = [CHR 0xE2, CHR 0x9A, CHR 0xA0]"

text \<open>What \<^verbatim>\<open>sendToRenderer\<close> is given: the three event shapes of the executor.\<close>

datatype renderer_event =
    Auto_mode_phase "json option" string template
  | Auto_mode_progress "json option" template
  | Auto_mode_tool "json option" string json

text \<open>
  The Execution Handle: \<^verbatim>\<open>execution.abortController\<close> and \<^verbatim>\<open>execution.query\<close> are an
  object (\<open>Some ()\<close>) or \<^verbatim>\<open>null\<close>. The handle is an object throughout, and its
  \<^verbatim>\<open>isActive()\<close> is answered by the flags of the agent's run.
\<close>

record execution =
  abortController :: "unit option"
  query :: "unit option"

record world = host +
  context_file :: "template list"
  renderer :: "renderer_event list"
  handle :: execution

text \<open>
  Modelled from the spec: \<^verbatim>\<open>contextManager.writeToContextFile(projectPath, feature.id,
  text)\<close> (the context manager is not among the sources) appends to the per-feature
  transcript (spec, section 4.1, step 7).
\<close>

definition writeToContextFile :: "template \<Rightarrow> world \<Rightarrow> world" where
  "writeToContextFile t w = w\<lparr>context_file := context_file w @ [t]\<rparr>"

text \<open>
  \<^verbatim>\<open>sendToRenderer\<close> is the caller's sink; the state keeps what it was given, in order.
\<close>

definition sendToRenderer :: "renderer_event \<Rightarrow> world \<Rightarrow> world" where
  "sendToRenderer ev w = w\<lparr>renderer := renderer w @ [ev]\<rparr>"

definition set_abortController :: "unit option \<Rightarrow> world \<Rightarrow> world" where
  "set_abortController v w = w\<lparr>handle := (handle w)\<lparr>abortController := v\<rparr>\<rparr>"

definition set_query :: "unit option \<Rightarrow> world \<Rightarrow> world" where
  "set_query v w = w\<lparr>handle := (handle w)\<lparr>query := v\<rparr>\<rparr>"

definition console_error_line :: "string \<Rightarrow> error \<Rightarrow> world \<Rightarrow> world" where
  "console_error_line label e w = w\<lparr>console_error := console_error w @ [(label, e)]\<rparr>"

text \<open>The result of a run: \<^verbatim>\<open>{ passes, message }\<close>.\<close>

record outcome =
  passes :: bool
  message :: string

text \<open>\<^verbatim>\<open>error instanceof AbortError || error?.name === "AbortError"\<close>\<close>

definition is_abort :: "error \<Rightarrow> bool" where
  "is_abort e = (instance_of_AbortError e \<or> error_name e = ''AbortError'')"

section \<open>The three runs of the executor\<close>

text \<open>
  The inner loop of \<^verbatim>\<open>implementFeature\<close> over the blocks of one message. The locals
  \<^verbatim>\<open>responseText\<close> and \<^verbatim>\<open>hasStartedToolUse\<close> are passed along.
\<close>

fun implement_blocks ::
  "Feature \<Rightarrow> block list \<Rightarrow> string \<times> bool \<Rightarrow> world \<Rightarrow> (string \<times> bool) \<times> world" where
  "implement_blocks feature [] locals w = (locals, w)"
| "implement_blocks feature (Text_block t # blocks) (responseText, hasStartedToolUse) w =
     (let w = writeToContextFile [Lit t] w;
          w = sendToRenderer (Auto_mode_progress (feature ''id'') [Lit t]) w
      in implement_blocks feature blocks (responseText @ t, hasStartedToolUse) w)"
| "implement_blocks feature (Tool_use tool_name input # blocks) (responseText, hasStartedToolUse) w =
     (let startMsg = ''Starting code implementation...'' @ nl;
          w = (if \<not> hasStartedToolUse
               then sendToRenderer (Auto_mode_progress (feature ''id'') [Lit startMsg])
                      (writeToContextFile [Lit startMsg] w)
               else w);
          w = writeToContextFile [Lit (nl @ wrench @ '' Tool: '' @ tool_name @ nl)] w;
          w = sendToRenderer (Auto_mode_tool (feature ''id'') tool_name input) w
      in implement_blocks feature blocks (responseText, True) w)"
| "implement_blocks feature (Other_block # blocks) locals w =
     implement_blocks feature blocks locals w"

text \<open>
  How a \<^verbatim>\<open>for await\<close> loop is left: the stream was consumed to its end (where it is
  exhausted or throws), or the loop executed \<^verbatim>\<open>break\<close>.
\<close>

datatype loop_exit = Stream_end | Break

text \<open>
  The \<^verbatim>\<open>for await\<close> loop of \<^verbatim>\<open>implementFeature\<close>. A tool call of the agent runs the
  gateway the executor built, \<^verbatim>\<open>createFeatureToolsServer\<close> with
  \<^verbatim>\<open>featureLoader.updateFeatureStatus\<close> bound as the callback.
\<close>

fun implement_loop ::
  "Feature \<Rightarrow> agent_step list \<Rightarrow> string \<times> bool \<Rightarrow> world \<Rightarrow> loop_exit \<times> (string \<times> bool) \<times> world" where
  "implement_loop feature [] locals w = (Stream_end, locals, w)"
| "implement_loop feature (Gateway_call featureId status # steps) locals w =
     implement_loop feature steps locals
       (snd (UpdateFeatureStatus updateFeatureStatus featureId status w))"
| "implement_loop feature (Yields active msg # steps) locals w =
     (if \<not> active then (Break, locals, w)
      else case msg of
             Assistant content \<Rightarrow>
               (case implement_blocks feature content locals w of
                  (locals', w') \<Rightarrow> implement_loop feature steps locals' w')
           | Other_message \<Rightarrow> implement_loop feature steps locals w)"

text \<open>
  The loop of \<^verbatim>\<open>resumeFeatureWithContext\<close> and of \<^verbatim>\<open>commitChangesOnly\<close>, which are the
  same text: no \<^verbatim>\<open>hasStartedToolUse\<close>.
\<close>

fun stream_blocks :: "Feature \<Rightarrow> block list \<Rightarrow> string \<Rightarrow> world \<Rightarrow> string \<times> world" where
  "stream_blocks feature [] responseText w = (responseText, w)"
| "stream_blocks feature (Text_block t # blocks) responseText w =
     (let w = writeToContextFile [Lit t] w;
          w = sendToRenderer (Auto_mode_progress (feature ''id'') [Lit t]) w
      in stream_blocks feature blocks (responseText @ t) w)"
| "stream_blocks feature (Tool_use tool_name input # blocks) responseText w =
     (let w = writeToContextFile [Lit (nl @ wrench @ '' Tool: '' @ tool_name @ nl)] w;
          w = sendToRenderer (Auto_mode_tool (feature ''id'') tool_name input) w
      in stream_blocks feature blocks responseText w)"
| "stream_blocks feature (Other_block # blocks) responseText w =
     stream_blocks feature blocks responseText w"

fun stream_loop ::
  "Feature \<Rightarrow> agent_step list \<Rightarrow> string \<Rightarrow> world \<Rightarrow> loop_exit \<times> string \<times> world" where
  "stream_loop feature [] responseText w = (Stream_end, responseText, w)"
| "stream_loop feature (Gateway_call featureId status # steps) responseText w =
     stream_loop feature steps responseText
       (snd (UpdateFeatureStatus updateFeatureStatus featureId status w))"
| "stream_loop feature (Yields active msg # steps) responseText w =
     (if \<not> active then (Break, responseText, w)
      else case msg of
             Assistant content \<Rightarrow>
               (case stream_blocks feature content responseText w of
                  (responseText', w') \<Rightarrow> stream_loop feature steps responseText' w')
           | Other_message \<Rightarrow> stream_loop feature steps responseText w)"

text \<open>
  The verification read:
  \<^verbatim>\<open>updatedFeatures.find((f) => f.id === feature.id)\<close> and
  \<^verbatim>\<open>updatedFeature?.status === "verified" || (updatedFeature?.skipTests &&
  updatedFeature?.status === "waiting_approval")\<close>. The source returns the value of this
  expression, which may be a falsy value other than \<^verbatim>\<open>false\<close>; the model keeps its
  truthiness, which is all the source itself reads of it.
\<close>

definition find_updated :: "Feature list \<Rightarrow> Feature \<Rightarrow> Feature option" where
  "find_updated updatedFeatures feature =
     List.find (\<lambda>f. strict_eq (f ''id'') (feature ''id'')) updatedFeatures"

definition verification_passes :: "Feature option \<Rightarrow> bool" where
  "verification_passes updatedFeature =
     (case updatedFeature of
        None \<Rightarrow> False
      | Some u \<Rightarrow> u ''status'' = Some (JStr ''verified'')
                  \<or> (truthy (u ''skipTests'') \<and> u ''status'' = Some (JStr ''waiting_approval'')))"

text \<open>
  The \<^verbatim>\<open>catch\<close> block shared by the three runs, up to the label of the log line and the
  message of the aborted outcome. \<open>Inl e\<close> is \<^verbatim>\<open>throw error\<close>.
\<close>

definition run_catch :: "string \<Rightarrow> string \<Rightarrow> error \<Rightarrow> world \<Rightarrow> (error + outcome) \<times> world" where
  "run_catch aborted_message label e w =
     (if is_abort e
      then (Inr \<lparr>passes = False, message = aborted_message\<rparr>,
            set_query None (set_abortController None w))
      else (Inl e,
            set_query None (set_abortController None (console_error_line label e w))))"

text \<open>Phase 3 of \<^verbatim>\<open>implementFeature\<close>, from the end of the loop to the \<^verbatim>\<open>return\<close>.\<close>

definition implement_verification :: "Feature \<Rightarrow> string \<Rightarrow> world \<Rightarrow> (error + outcome) \<times> world" where
  "implement_verification feature responseText w =
     (let w = set_abortController None (set_query None w);
          w = writeToContextFile
                [Lit (check_mark_button @ '' Verifying implementation for: ''),
                 Val (feature ''description''), Lit nl] w;
          w = sendToRenderer
                (Auto_mode_phase (feature ''id'') ''verification''
                   [Lit ''Verifying implementation for: '', Val (feature ''description'')]) w;
          checkingMsg = ''Verifying implementation and checking test results...'' @ nl;
          w = writeToContextFile [Lit checkingMsg] w;
          w = sendToRenderer (Auto_mode_progress (feature ''id'') [Lit checkingMsg]) w;
          updatedFeatures = loadFeatures (features w);
          updatedFeature = find_updated updatedFeatures feature;
          passes = verification_passes updatedFeature;
          resultMsg = (if passes
                       then check_mark @ '' Verification successful: All tests passed'' @ nl
                       else ballot_x @ '' Verification: Tests need attention'' @ nl);
          w = writeToContextFile [Lit resultMsg] w;
          w = sendToRenderer (Auto_mode_progress (feature ''id'') [Lit resultMsg]) w
      in (Inr \<lparr>passes = passes, message = take 500 responseText\<rparr>, w))"

text \<open>
  \<^verbatim>\<open>implementFeature(feature, projectPath, sendToRenderer, execution)\<close>. The
  \<^verbatim>\<open>sleep(500)\<close> between the phases changes nothing. The one throw inside the
  \<^verbatim>\<open>try\<close> block that the model has is the stream's; \<^verbatim>\<open>substring(0, 500)\<close> counts
  the characters of the model's text.
\<close>

definition implementFeature ::
  "agent \<Rightarrow> Feature \<Rightarrow> world \<Rightarrow> (error + outcome) \<times> world" where
  "implementFeature agent feature w =
     (let w = writeToContextFile
                [Lit (clipboard @ '' Planning implementation for: ''),
                 Val (feature ''description''), Lit nl] w;
          w = sendToRenderer
                (Auto_mode_phase (feature ''id'') ''planning''
                   [Lit ''Planning implementation for: '', Val (feature ''description'')]) w;
          w = set_abortController (Some ()) w;
          w = sendToRenderer
                (Auto_mode_progress (feature ''id'')
                   [Lit ''Analyzing codebase structure and creating implementation plan...'']) w;
          w = writeToContextFile
                [Lit (high_voltage @ '' Executing implementation for: ''),
                 Val (feature ''description''), Lit nl] w;
          w = sendToRenderer
                (Auto_mode_phase (feature ''id'') ''action''
                   [Lit ''Executing implementation for: '', Val (feature ''description'')]) w;
          currentQuery = agent (buildFeaturePrompt feature) implement_options;
          w = set_query (Some ()) w
      in case implement_loop feature (fst currentQuery) ([], False) w of
           (Stream_end, (responseText, hasStartedToolUse), w') \<Rightarrow>
             (case snd currentQuery of
                Raises e \<Rightarrow>
                  run_catch ''Auto mode aborted'' ''[FeatureExecutor] Error implementing feature:'' e w'
              | Exhausted \<Rightarrow> implement_verification feature responseText w')
         | (Break, (responseText, hasStartedToolUse), w') \<Rightarrow>
             implement_verification feature responseText w')"

text \<open>\<^verbatim>\<open>resumeFeatureWithContext\<close>, from the end of its loop to the \<^verbatim>\<open>return\<close>.\<close>

definition resume_check :: "Feature \<Rightarrow> string \<Rightarrow> world \<Rightarrow> (error + outcome) \<times> world" where
  "resume_check feature responseText w =
     (let w = set_abortController None (set_query None w);
          updatedFeatures = loadFeatures (features w);
          updatedFeature = find_updated updatedFeatures feature;
          passes = verification_passes updatedFeature;
          finalMsg = (if passes
                      then check_mark @ '' Feature successfully verified and completed'' @ nl
                      else warning_sign @ '' Feature still in progress - may need additional work'' @ nl);
          w = writeToContextFile [Lit finalMsg] w;
          w = sendToRenderer (Auto_mode_progress (feature ''id'') [Lit finalMsg]) w
      in (Inr \<lparr>passes = passes, message = take 500 responseText\<rparr>, w))"

text \<open>
  \<^verbatim>\<open>resumeFeatureWithContext(feature, projectPath, sendToRenderer, previousContext,
  execution)\<close>; the previous context only enters the prompt.
\<close>

definition resumeFeatureWithContext ::
  "agent \<Rightarrow> Feature \<Rightarrow> string \<Rightarrow> world \<Rightarrow> (error + outcome) \<times> world" where
  "resumeFeatureWithContext agent feature previousContext w =
     (let w = writeToContextFile
                [Lit (nl @ arrows @ '' Resuming implementation for: ''),
                 Val (feature ''description''), Lit nl] w;
          w = sendToRenderer
                (Auto_mode_phase (feature ''id'') ''action''
                   [Lit ''Resuming implementation for: '', Val (feature ''description'')]) w;
          w = set_abortController (Some ()) w;
          currentQuery = agent (buildResumePrompt feature previousContext) resume_options;
          w = set_query (Some ()) w
      in case stream_loop feature (fst currentQuery) [] w of
           (Stream_end, responseText, w') \<Rightarrow>
             (case snd currentQuery of
                Raises e \<Rightarrow>
                  run_catch ''Resume aborted'' ''[FeatureExecutor] Error resuming feature:'' e w'
              | Exhausted \<Rightarrow> resume_check feature responseText w')
         | (Break, responseText, w') \<Rightarrow> resume_check feature responseText w')"

text \<open>\<^verbatim>\<open>commitChangesOnly\<close>, from the end of its loop to the \<^verbatim>\<open>return\<close>.\<close>

definition commit_finish :: "Feature \<Rightarrow> string \<Rightarrow> world \<Rightarrow> (error + outcome) \<times> world" where
  "commit_finish feature responseText w =
     (let w = set_abortController None (set_query None w);
          finalMsg = check_mark @ '' Changes committed successfully'' @ nl;
          w = writeToContextFile [Lit finalMsg] w;
          w = sendToRenderer (Auto_mode_progress (feature ''id'') [Lit finalMsg]) w
      in (Inr \<lparr>passes = True, message = take 500 responseText\<rparr>, w))"

text \<open>\<^verbatim>\<open>commitChangesOnly(feature, projectPath, sendToRenderer, execution)\<close>\<close>

definition commitChangesOnly ::
  "agent \<Rightarrow> Feature \<Rightarrow> world \<Rightarrow> (error + outcome) \<times> world" where
  "commitChangesOnly agent feature w =
     (let w = writeToContextFile
                [Lit (nl @ memo @ '' Committing changes for: ''),
                 Val (feature ''description''), Lit nl] w;
          w = sendToRenderer
                (Auto_mode_progress (feature ''id'') [Lit ''Committing changes to git...'']) w;
          w = set_abortController (Some ()) w;
          currentQuery = agent (Prompt_literal (commit_prompt feature)) commit_options;
          w = set_query (Some ()) w
      in case stream_loop feature (fst currentQuery) [] w of
           (Stream_end, responseText, w') \<Rightarrow>
             (case snd currentQuery of
                Raises e \<Rightarrow>
                  run_catch ''Commit aborted'' ''[FeatureExecutor] Error committing feature:'' e w'
              | Exhausted \<Rightarrow> commit_finish feature responseText w')
         | (Break, responseText, w') \<Rightarrow> commit_finish feature responseText w')"

text \<open>The phases announced to the renderer, in the order they were sent.\<close>

fun phase_of :: "renderer_event \<Rightarrow> string list" where
  "phase_of (Auto_mode_phase featureId phase msg) = [phase]"
| "phase_of (Auto_mode_progress featureId content) = []"
| "phase_of (Auto_mode_tool featureId tool_name input) = []"

definition phases :: "world \<Rightarrow> string list" where
  "phases w = concat (map phase_of (renderer w))"

text \<open>The loop of a run is left by \<^verbatim>\<open>break\<close>: some message arrives at an inactive handle.\<close>

fun inactive_at_arrival :: "agent_step \<Rightarrow> bool" where
  "inactive_at_arrival (Yields active msg) = (\<not> active)"
| "inactive_at_arrival (Gateway_call featureId status) = False"

definition loop_breaks :: "agent_run \<Rightarrow> bool" where
  "loop_breaks run = list_ex inactive_at_arrival (fst run)"

text \<open>The stream is consumed to its end, with the handle active at every message, and ends without a throw.\<close>

definition stream_completes :: "agent_run \<Rightarrow> bool" where
  "stream_completes run = (snd run = Exhausted \<and> \<not> loop_breaks run)"

text \<open>The iterator throws \<open>e\<close> into the run: the stream ends by a throw and the loop reaches its end.\<close>

definition stream_throws :: "agent_run \<Rightarrow> error \<Rightarrow> bool" where
  "stream_throws run e = (snd run = Raises e \<and> \<not> loop_breaks run)"

section \<open>The Running-Set Registry (running-agents.ts)\<close>

record RunningAgent =
  agent_featureId :: string
  agent_projectPath :: string
  agent_projectName :: string
  agent_isAutoMode :: bool

text \<open>The module state: \<^verbatim>\<open>runningAgentsMap\<close>, a \<^verbatim>\<open>Map\<close> keyed by feature identifier, and \<^verbatim>\<open>autoLoopRunning\<close>.\<close>

record registry =
  runningAgentsMap :: "string \<rightharpoonup> RunningAgent"
  autoLoopRunning :: bool

text \<open>\<^verbatim>\<open>path.basename\<close> on a POSIX path: trailing slashes are dropped, then what follows the last slash.\<close>

definition basename :: "string \<Rightarrow> string" where
  "basename p =
     (let q = dropWhile (\<lambda>c. c = CHR ''/'') (rev p)
      in rev (takeWhile (\<lambda>c. c \<noteq> CHR ''/'') q))"

definition registerRunningAgent :: "string \<Rightarrow> string \<Rightarrow> bool \<Rightarrow> registry \<Rightarrow> registry" where
  "registerRunningAgent featureId projectPath isAutoMode r =
     r\<lparr>runningAgentsMap := (runningAgentsMap r)(featureId \<mapsto>
          \<lparr>agent_featureId = featureId, agent_projectPath = projectPath,
           agent_projectName = basename projectPath, agent_isAutoMode = isAutoMode\<rparr>)\<rparr>"

definition unregisterRunningAgent :: "string \<Rightarrow> registry \<Rightarrow> registry" where
  "unregisterRunningAgent featureId r =
     r\<lparr>runningAgentsMap := (runningAgentsMap r)(featureId := None)\<rparr>"

definition setAutoLoopRunning :: "bool \<Rightarrow> registry \<Rightarrow> registry" where
  "setAutoLoopRunning running r = r\<lparr>autoLoopRunning := running\<rparr>"

definition isAgentRunning :: "registry \<Rightarrow> string \<Rightarrow> bool" where
  "isAgentRunning r featureId = (runningAgentsMap r featureId \<noteq> None)"

text \<open>
  Modelled from the spec: the entry point \<^verbatim>\<open>run\<close> of the orchestrator, which is the
  caller of \<^verbatim>\<open>isAgentRunning\<close> and \<^verbatim>\<open>registerRunningAgent\<close>, is not among the sources.
  The spec (sections 4.1 and 5) has it check the Running-Set Registry at registration
  time, fail fast with a "busy" error for a feature that is already running, without
  queueing, and otherwise register the feature (step 1 of the algorithm). Only this
  admission step is modelled; check and registration are one synchronous step.
\<close>

datatype run_rejection = Busy

definition run_admission ::
  "string \<Rightarrow> string \<Rightarrow> bool \<Rightarrow> registry \<Rightarrow> (run_rejection + unit) \<times> registry" where
  "run_admission featureId projectPath isAutoMode r =
     (if isAgentRunning r featureId then (Inl Busy, r)
      else (Inr (), registerRunningAgent featureId projectPath isAutoMode r))"

section \<open>The Event Bus (events.ts)\<close>

datatype EventType =
    Agent_stream | Auto_mode_event | Auto_mode_started | Auto_mode_stopped | Auto_mode_idle
  | Auto_mode_error | Feature_started | Feature_completed | Feature_stopped | Feature_error
  | Feature_progress | Feature_tool_use | Feature_follow_up_started
  | Feature_follow_up_completed | Feature_verified | Feature_committed
  | Project_analysis_started | Project_analysis_progress | Project_analysis_completed
  | Project_analysis_error | Suggestions_event | Spec_regeneration_event

text \<open>
  A subscriber is a function object: its identity (what the \<^verbatim>\<open>Set\<close> compares) and what
  a call of it does to the world outside the emitter, which may end in a throw. The set
  of subscribers is private to the closure of \<^verbatim>\<open>createEventEmitter\<close>; a callback that
  subscribes or unsubscribes while an event is being delivered is not modelled.
\<close>

record 'w EventCallback =
  callback_ref :: nat
  invoke :: "EventType \<Rightarrow> json \<Rightarrow> 'w \<Rightarrow> error option \<times> 'w"

text \<open>
  The emitter with its surroundings: the \<^verbatim>\<open>Set\<close> in insertion order, the
  \<^verbatim>\<open>console.error\<close> lines, and the world the callbacks act on.
\<close>

record 'w bus =
  subscribers :: "'w EventCallback list"
  bus_console_error :: "(string \<times> error) list"
  outside :: 'w

text \<open>\<^verbatim>\<open>for (const callback of subscribers) { try { callback(type, payload) } catch ... }\<close>\<close>

fun emit_loop ::
  "'w EventCallback list \<Rightarrow> EventType \<Rightarrow> json \<Rightarrow> (string \<times> error) list \<times> 'w
     \<Rightarrow> (string \<times> error) list \<times> 'w" where
  "emit_loop [] event_type payload st = st"
| "emit_loop (callback # rest) event_type payload (console, w) =
     (case invoke callback event_type payload w of
        (None, w') \<Rightarrow> emit_loop rest event_type payload (console, w')
      | (Some e, w') \<Rightarrow>
          emit_loop rest event_type payload (console @ [(''Error in event subscriber:'', e)], w'))"

definition emit :: "EventType \<Rightarrow> json \<Rightarrow> 'w bus \<Rightarrow> 'w bus" where
  "emit event_type payload b =
     (case emit_loop (subscribers b) event_type payload (bus_console_error b, outside b) of
        (console, w) \<Rightarrow> b\<lparr>bus_console_error := console, outside := w\<rparr>)"

text \<open>\<^verbatim>\<open>subscribers.add(callback)\<close>: a function that is already in the set is not added again.\<close>

definition subscribe :: "'w EventCallback \<Rightarrow> 'w bus \<Rightarrow> 'w bus" where
  "subscribe callback b =
     (if callback_ref callback \<in> set (map callback_ref (subscribers b)) then b
      else b\<lparr>subscribers := subscribers b @ [callback]\<rparr>)"

text \<open>The function \<^verbatim>\<open>subscribe\<close> returns: \<^verbatim>\<open>subscribers.delete(callback)\<close>.\<close>

definition unsubscribe :: "'w EventCallback \<Rightarrow> 'w bus \<Rightarrow> 'w bus" where
  "unsubscribe callback b =
     b\<lparr>subscribers := filter (\<lambda>c. callback_ref c \<noteq> callback_ref callback) (subscribers b)\<rparr>"

text \<open>What the world is after one subscriber was called on it, whether the call threw or not.\<close>

definition delivered :: "EventType \<Rightarrow> json \<Rightarrow> 'w \<Rightarrow> 'w EventCallback \<Rightarrow> 'w" where
  "delivered event_type payload w callback = snd (invoke callback event_type payload w)"

section \<open>Concrete inputs\<close>

definition feature_1 :: Feature where
  "feature_1 = [''id'' \<mapsto> JStr ''feature-1'', ''description'' \<mapsto> JStr ''Add login'',
                ''status'' \<mapsto> JStr ''in_progress'', ''skipTests'' \<mapsto> JBool False]"

definition feature_2 :: Feature where
  "feature_2 = [''id'' \<mapsto> JStr ''feature-2'', ''description'' \<mapsto> JStr ''Rename button'',
                ''status'' \<mapsto> JStr ''in_progress'', ''skipTests'' \<mapsto> JBool True]"

definition host_1 :: host where
  "host_1 = \<lparr>features = [(''feature-1'', feature_1), (''feature-2'', feature_2)],
             console_error = []\<rparr>"

definition world_1 :: world where
  "world_1 = \<lparr>features = [(''feature-1'', feature_1), (''feature-2'', feature_2)],
              console_error = [], context_file = [], renderer = [],
              handle = \<lparr>abortController = None, query = None\<rparr>\<rparr>"

text \<open>
  The agent marks feature-1 verified through the gateway; the next message reaches the
  loop after the handle was made inactive.
\<close>

definition cancelled_agent :: agent where
  "cancelled_agent prompt opts =
     ([Gateway_call ''feature-1'' ''verified'', Yields False (Assistant [Text_block ''done''])],
      Exhausted)"

text \<open>The iterator throws the SDK's abort error before any message.\<close>

definition aborting_agent :: agent where
  "aborting_agent prompt opts = ([], Raises (JsError True ''AbortError'' ''aborted''))"

text \<open>The iterator throws another error after one message.\<close>

definition failing_agent :: agent where
  "failing_agent prompt opts = ([Yields True Other_message], Raises (Error ''socket hang up''))"

text \<open>The agent says one sentence and the stream ends.\<close>

definition quiet_agent :: agent where
  "quiet_agent prompt opts = ([Yields True (Assistant [Text_block ''committed''])], Exhausted)"

text \<open>Two subscribers on a world that is a list of notes: one always throws, one takes a note.\<close>

definition throwing_subscriber :: "string list EventCallback" where
  "throwing_subscriber =
     \<lparr>callback_ref = 0, invoke = (\<lambda>event_type payload w. (Some (Error ''boom''), w))\<rparr>"

definition recording_subscriber :: "string list EventCallback" where
  "recording_subscriber =
     \<lparr>callback_ref = 1, invoke = (\<lambda>event_type payload w. (None, w @ [''seen'']))\<rparr>"

definition bus_1 :: "string list bus" where
  "bus_1 = \<lparr>subscribers = [throwing_subscriber, recording_subscriber],
            bus_console_error = [], outside = []\<rparr>"

definition registry_0 :: registry where
  "registry_0 = \<lparr>runningAgentsMap = Map.empty, autoLoopRunning = False\<rparr>"

section \<open>Properties of the Feature Store\<close>

lemma map_of_writeFile:
  "map_of (writeFile s k f) k' = (if k' = k then Some f else map_of s k')"
  by (simp add: writeFile_def update_conv')

text \<open>
  C9. For a stored feature and any partial update, \<^verbatim>\<open>update\<close> succeeds, returns and
  stores the merged record: every field the update supplies has the update's value, every
  other field keeps its stored value, and no other feature's record changes.
\<close>

theorem update_merge_semantics:
  assumes "FeatureLoader_get s featureId = Some feature"
  shows "\<exists>s'. FeatureLoader_update s featureId updates = Inr (feature ++ updates, s')
           \<and> FeatureLoader_get s' featureId = Some (feature ++ updates)
           \<and> (\<forall>k v. updates k = Some v \<longrightarrow> (feature ++ updates) k = Some v)
           \<and> (\<forall>k. updates k = None \<longrightarrow> (feature ++ updates) k = feature k)
           \<and> (\<forall>other. other \<noteq> featureId \<longrightarrow> FeatureLoader_get s' other = FeatureLoader_get s other)"
proof -
  let ?s' = "writeFile s featureId (feature ++ updates)"
  have "FeatureLoader_update s featureId updates = Inr (feature ++ updates, ?s')"
    using assms by (simp add: FeatureLoader_update_def Let_def)
  moreover have "FeatureLoader_get ?s' featureId = Some (feature ++ updates)"
    by (simp add: FeatureLoader_get_def readFile_def map_of_writeFile)
  moreover have "\<forall>k v. updates k = Some v \<longrightarrow> (feature ++ updates) k = Some v"
    by (simp add: map_add_def)
  moreover have "\<forall>k. updates k = None \<longrightarrow> (feature ++ updates) k = feature k"
    by (simp add: map_add_def)
  moreover have "\<forall>other. other \<noteq> featureId \<longrightarrow>
      FeatureLoader_get ?s' other = FeatureLoader_get s other"
    by (simp add: FeatureLoader_get_def readFile_def map_of_writeFile)
  ultimately show ?thesis by blast
qed

theorem update_merge_semantics_witness:
  "FeatureLoader_get [(''feature-1'', [''id'' \<mapsto> JStr ''feature-1'', ''status'' \<mapsto> JStr ''backlog''])]
      ''feature-1'' = Some [''id'' \<mapsto> JStr ''feature-1'', ''status'' \<mapsto> JStr ''backlog'']
   \<and> (\<exists>s'. FeatureLoader_update
              [(''feature-1'', [''id'' \<mapsto> JStr ''feature-1'', ''status'' \<mapsto> JStr ''backlog''])]
              ''feature-1'' [''status'' \<mapsto> JStr ''in_progress'']
            = Inr ([''id'' \<mapsto> JStr ''feature-1'', ''status'' \<mapsto> JStr ''backlog'']
                     ++ [''status'' \<mapsto> JStr ''in_progress''], s')
          \<and> FeatureLoader_get s' ''feature-1''
            = Some ([''id'' \<mapsto> JStr ''feature-1'', ''status'' \<mapsto> JStr ''backlog'']
                     ++ [''status'' \<mapsto> JStr ''in_progress'']))"
proof -
  have h: "FeatureLoader_get
      [(''feature-1'', [''id'' \<mapsto> JStr ''feature-1'', ''status'' \<mapsto> JStr ''backlog''])]
      ''feature-1'' = Some [''id'' \<mapsto> JStr ''feature-1'', ''status'' \<mapsto> JStr ''backlog'']"
    by (simp add: FeatureLoader_get_def readFile_def)
  from update_merge_semantics [OF h, of "[''status'' \<mapsto> JStr ''in_progress'']"]
  show ?thesis using h by blast
qed









section \<open>Properties of the Status Mutation Gateway\<close>

lemma find_by_id_store_ok:
  "store_ok s \<Longrightarrow> find_by_id (loadFeatures s) k = map_of s k"
  by (induction s) (auto simp: store_ok_def find_by_id_def loadFeatures_def)

lemma converted_differs:
  "converted_message fid ''waiting_approval'' ''verified'' \<noteq> direct_message fid ''verified''"
  "converted_message fid ''waiting_approval'' ''verified'' \<noteq> direct_message fid ''waiting_approval''"
  by (simp_all add: converted_message_def direct_message_def dq_def)

lemma gateway_hands_final_status:
  assumes "find_by_id (loadFeatures (features h)) featureId = Some feature"
  shows "features (snd (UpdateFeatureStatus cb featureId ''verified'' h))
         = snd (cb featureId (if feature ''skipTests'' = Some (JBool True)
                              then ''waiting_approval'' else ''verified'') (features h))"
  using assms
  by (simp add: UpdateFeatureStatus_def UpdateFeatureStatus_try_def Let_def
           split: prod.splits option.splits sum.splits)

text \<open>
  C1. For a feature stored under its identifier, the gateway called with \<^verbatim>\<open>verified\<close>
  hands the store writer \<^verbatim>\<open>waiting_approval\<close> when the feature's \<^verbatim>\<open>skipTests\<close> is
  \<^verbatim>\<open>true\<close> and \<^verbatim>\<open>verified\<close> otherwise, whatever the writer is; with the executor's
  writer the stored status is that status and every other field is kept; the text returned
  in the rewritten case is the "converted" message, which differs from the text of a direct
  write of either status.
\<close>

theorem setStatus_verified:
  assumes ok: "store_ok (features h)"
      and stored: "FeatureLoader_get (features h) featureId = Some feature"
  shows "(\<forall>cb. features (snd (UpdateFeatureStatus cb featureId ''verified'' h))
              = snd (cb featureId (if feature ''skipTests'' = Some (JBool True)
                              then ''waiting_approval'' else ''verified'') (features h)))
       \<and> FeatureLoader_get (features (snd (UpdateFeatureStatus updateFeatureStatus featureId ''verified'' h))) featureId
         = Some (feature(''status'' \<mapsto> JStr (if feature ''skipTests'' = Some (JBool True)
                              then ''waiting_approval'' else ''verified'')))
       \<and> fst (UpdateFeatureStatus updateFeatureStatus featureId ''verified'' h)
         = Inr (Content_text (if feature ''skipTests'' = Some (JBool True)
                 then converted_message featureId ''waiting_approval'' ''verified''
                 else direct_message featureId ''verified''))
       \<and> converted_message featureId ''waiting_approval'' ''verified'' \<noteq> direct_message featureId ''verified''
       \<and> converted_message featureId ''waiting_approval'' ''verified'' \<noteq> direct_message featureId ''waiting_approval''"
proof -
  have found: "find_by_id (loadFeatures (features h)) featureId = Some feature"
    using ok stored by (simp add: find_by_id_store_ok FeatureLoader_get_def readFile_def)
  have cb: "updateFeatureStatus featureId st (features h)
            = (None, writeFile (features h) featureId (feature(''status'' \<mapsto> JStr st)))" for st
    using stored by (simp add: updateFeatureStatus_def FeatureLoader_update_def Let_def)
  have 1: "\<forall>cb. features (snd (UpdateFeatureStatus cb featureId ''verified'' h))
              = snd (cb featureId (if feature ''skipTests'' = Some (JBool True)
                              then ''waiting_approval'' else ''verified'') (features h))"
    using gateway_hands_final_status [OF found] by blast
  have 2: "FeatureLoader_get (features (snd (UpdateFeatureStatus updateFeatureStatus featureId ''verified'' h))) featureId
         = Some (feature(''status'' \<mapsto> JStr (if feature ''skipTests'' = Some (JBool True)
                              then ''waiting_approval'' else ''verified'')))"
    using gateway_hands_final_status [OF found, of updateFeatureStatus]
    by (simp add: cb FeatureLoader_get_def readFile_def map_of_writeFile)
  have 3: "fst (UpdateFeatureStatus updateFeatureStatus featureId ''verified'' h)
         = Inr (Content_text (if feature ''skipTests'' = Some (JBool True)
                 then converted_message featureId ''waiting_approval'' ''verified''
                 else direct_message featureId ''verified''))"
    using found by (simp add: UpdateFeatureStatus_def UpdateFeatureStatus_try_def cb Let_def)
  show ?thesis using 1 2 3 converted_differs by blast
qed

theorem setStatus_verified_witness:
  "store_ok (features host_1)
   \<and> FeatureLoader_get (features host_1) ''feature-2'' = Some feature_2
   \<and> FeatureLoader_get
        (features (snd (UpdateFeatureStatus updateFeatureStatus ''feature-2'' ''verified'' host_1)))
        ''feature-2''
      = Some (feature_2(''status'' \<mapsto> JStr ''waiting_approval''))
   \<and> FeatureLoader_get (features host_1) ''feature-1'' = Some feature_1
   \<and> FeatureLoader_get
        (features (snd (UpdateFeatureStatus updateFeatureStatus ''feature-1'' ''verified'' host_1)))
        ''feature-1''
      = Some (feature_1(''status'' \<mapsto> JStr ''verified''))"
proof -
  have ok: "store_ok (features host_1)"
    by (simp add: host_1_def store_ok_def feature_1_def feature_2_def)
  have g2: "FeatureLoader_get (features host_1) ''feature-2'' = Some feature_2"
    by (simp add: host_1_def FeatureLoader_get_def readFile_def)
  have g1: "FeatureLoader_get (features host_1) ''feature-1'' = Some feature_1"
    by (simp add: host_1_def FeatureLoader_get_def readFile_def)
  have s2: "feature_2 ''skipTests'' = Some (JBool True)"
    by (simp add: feature_2_def)
  have s1: "feature_1 ''skipTests'' \<noteq> Some (JBool True)"
    by (simp add: feature_1_def)
  have r2: "FeatureLoader_get
        (features (snd (UpdateFeatureStatus updateFeatureStatus ''feature-2'' ''verified'' host_1)))
        ''feature-2''
      = Some (feature_2(''status'' \<mapsto> JStr (if feature_2 ''skipTests'' = Some (JBool True)
                              then ''waiting_approval'' else ''verified'')))"
    using setStatus_verified [OF ok g2] by blast
  have r1: "FeatureLoader_get
        (features (snd (UpdateFeatureStatus updateFeatureStatus ''feature-1'' ''verified'' host_1)))
        ''feature-1''
      = Some (feature_1(''status'' \<mapsto> JStr (if feature_1 ''skipTests'' = Some (JBool True)
                              then ''waiting_approval'' else ''verified'')))"
    using setStatus_verified [OF ok g1] by blast
  show ?thesis
    using r1 r2 ok g1 g2 s1 s2 by simp
qed

text \<open>
  C5, as the code has it. A call for an identifier that no stored feature carries does
  not fail: the not-found error is thrown and caught inside the handler, which logs it and
  resolves to the text \<^verbatim>\<open>Failed to update feature status: Feature <id> not found\<close>. The
  store writer is not called and the feature directory is unchanged.
\<close>

theorem setStatus_unknown_feature:
  assumes "find_by_id (loadFeatures (features h)) featureId = None"
  shows "UpdateFeatureStatus cb featureId status h
         = (Inr (Content_text (''Failed to update feature status: Feature '' @ featureId @ '' not found'')),
            h\<lparr>console_error := console_error h
               @ [(''[McpServerFactory] UpdateFeatureStatus tool error:'',
                   Error (''Feature '' @ featureId @ '' not found''))]\<rparr>)"
  using assms by (simp add: UpdateFeatureStatus_def UpdateFeatureStatus_try_def Error_def)

theorem setStatus_unknown_feature_witness:
  "find_by_id (loadFeatures (features host_1)) ''feature-404'' = None
   \<and> fst (UpdateFeatureStatus updateFeatureStatus ''feature-404'' ''verified'' host_1)
      = Inr (Content_text ''Failed to update feature status: Feature feature-404 not found'')
   \<and> features (snd (UpdateFeatureStatus updateFeatureStatus ''feature-404'' ''verified'' host_1))
      = features host_1"
proof -
  have h: "find_by_id (loadFeatures (features host_1)) ''feature-404'' = None"
    by (simp add: host_1_def find_by_id_def loadFeatures_def feature_1_def feature_2_def)
  show ?thesis
    using setStatus_unknown_feature [OF h, of updateFeatureStatus "''verified''"] h
    by simp
qed

text \<open>
  The claim as stated fails: for the unknown identifier \<^verbatim>\<open>feature-404\<close> the call
  resolves to a text result; no failure reaches the caller.
\<close>

theorem setStatus_unknown_feature_counterexample:
  "fst (UpdateFeatureStatus updateFeatureStatus ''feature-404'' ''verified'' host_1)
     = Inr (Content_text ''Failed to update feature status: Feature feature-404 not found'')
   \<and> \<not> isl (fst (UpdateFeatureStatus updateFeatureStatus ''feature-404'' ''verified'' host_1))"
  by (simp add: UpdateFeatureStatus_def UpdateFeatureStatus_try_def find_by_id_def
        loadFeatures_def host_1_def feature_1_def feature_2_def Error_def)

section \<open>Properties of the Event Bus\<close>

lemma emit_loop_append:
  "emit_loop (xs @ ys) t p st = emit_loop ys t p (emit_loop xs t p st)"
  by (induction xs t p st rule: emit_loop.induct) (auto split: prod.splits option.splits)

lemma emit_loop_world:
  "snd (emit_loop xs t p st) = foldl (delivered t p) (snd st) xs"
  by (induction xs t p st rule: emit_loop.induct)
     (auto simp: delivered_def split: prod.splits option.splits)

lemma emit_loop_console_grows:
  "set (fst st) \<subseteq> set (fst (emit_loop xs t p st))"
  by (induction xs t p st rule: emit_loop.induct)
     (auto split: prod.splits option.splits)

text \<open>
  C8. When the subscriber at any position of the set throws on the event, the error is
  logged with \<^verbatim>\<open>console.error\<close>, every subscriber after it is still called, in order,
  on the world the thrower left, and the set of subscribers is what it was.
\<close>

theorem emit_isolates_throwing_subscriber:
  assumes subs: "subscribers b = before @ thrower # remaining"
      and throws: "fst (invoke thrower t p (foldl (delivered t p) (outside b) before)) = Some e"
  shows "(''Error in event subscriber:'', e) \<in> set (bus_console_error (emit t p b))
       \<and> outside (emit t p b)
           = foldl (delivered t p)
               (delivered t p (foldl (delivered t p) (outside b) before) thrower) remaining
       \<and> subscribers (emit t p b) = subscribers b"
proof -
  let ?st0 = "(bus_console_error b, outside b)"
  let ?st1 = "emit_loop before t p ?st0"
  let ?w1 = "foldl (delivered t p) (outside b) before"
  have w1: "snd ?st1 = ?w1" by (simp add: emit_loop_world)
  obtain c1 where st1: "?st1 = (c1, ?w1)" using w1 by (cases ?st1) auto
  obtain w2 where inv: "invoke thrower t p ?w1 = (Some e, w2)" using throws
    by (cases "invoke thrower t p ?w1") auto
  have w2: "w2 = delivered t p ?w1 thrower" by (simp add: delivered_def inv)
  let ?st2 = "(c1 @ [(''Error in event subscriber:'', e)], w2)"
  have split: "emit_loop (subscribers b) t p ?st0 = emit_loop remaining t p ?st2"
    by (simp add: subs emit_loop_append st1 inv)
  have logged: "(''Error in event subscriber:'', e) \<in> set (fst (emit_loop remaining t p ?st2))"
    using emit_loop_console_grows [of ?st2 remaining t p] by auto
  have world: "snd (emit_loop remaining t p ?st2) = foldl (delivered t p) w2 remaining"
    by (simp add: emit_loop_world)
  show ?thesis
    using logged world by (auto simp: emit_def split w2 split: prod.splits)
qed

theorem emit_isolates_throwing_subscriber_witness:
  "subscribers bus_1 = [] @ throwing_subscriber # [recording_subscriber]
   \<and> fst (invoke throwing_subscriber Feature_progress JNull
            (foldl (delivered Feature_progress JNull) (outside bus_1) [])) = Some (Error ''boom'')
   \<and> (''Error in event subscriber:'', Error ''boom'')
        \<in> set (bus_console_error (emit Feature_progress JNull bus_1))
   \<and> outside (emit Feature_progress JNull bus_1) = [''seen'']
   \<and> subscribers (emit Feature_progress JNull bus_1) = subscribers bus_1"
proof -
  have subs: "subscribers bus_1 = [] @ throwing_subscriber # [recording_subscriber]"
    by (simp add: bus_1_def)
  have throws: "fst (invoke throwing_subscriber Feature_progress JNull
            (foldl (delivered Feature_progress JNull) (outside bus_1) [])) = Some (Error ''boom'')"
    by (simp add: throwing_subscriber_def)
  have after: "foldl (delivered Feature_progress JNull)
           (delivered Feature_progress JNull
              (foldl (delivered Feature_progress JNull) (outside bus_1) []) throwing_subscriber)
           [recording_subscriber] = [''seen'']"
    by (simp add: delivered_def throwing_subscriber_def recording_subscriber_def bus_1_def)
  show ?thesis
    using emit_isolates_throwing_subscriber [OF subs throws] subs throws after
    by simp
qed

section \<open>Properties of the executor\<close>

lemma phases_simps:
  "phases (writeToContextFile t w) = phases w"
  "phases (sendToRenderer ev w) = phases w @ phase_of ev"
  "phases (set_abortController v w) = phases w"
  "phases (set_query v w) = phases w"
  "phases (console_error_line label e w) = phases w"
  by (simp_all add: phases_def writeToContextFile_def sendToRenderer_def
        set_abortController_def set_query_def console_error_line_def)

lemma gateway_keeps_renderer:
  "renderer (snd (UpdateFeatureStatus cb featureId status (w::world))) = renderer w"
  by (simp add: UpdateFeatureStatus_def split: prod.splits sum.splits)

lemma phases_gateway:
  "phases (snd (UpdateFeatureStatus cb featureId status w)) = phases w"
  by (simp add: phases_def gateway_keeps_renderer)

lemma phases_implement_blocks:
  "phases (snd (implement_blocks feature blocks locals w)) = phases w"
  by (induction feature blocks locals w rule: implement_blocks.induct)
     (simp_all add: phases_simps Let_def)

lemma phases_implement_loop:
  "phases (snd (snd (implement_loop feature steps locals w))) = phases w"
proof (induction feature steps locals w rule: implement_loop.induct)
  case (3 feature active msg steps locals w)
  then show ?case
    by (cases msg; cases "implement_blocks feature (case msg of Assistant c \<Rightarrow> c | _ \<Rightarrow> []) locals w")
       (auto simp: phases_implement_blocks dest: arg_cong [where f = "\<lambda>x. phases (snd x)"])
qed (simp_all add: phases_gateway)

lemma phases_stream_blocks:
  "phases (snd (stream_blocks feature blocks responseText w)) = phases w"
  by (induction feature blocks responseText w rule: stream_blocks.induct)
     (simp_all add: phases_simps Let_def)

lemma phases_stream_loop:
  "phases (snd (snd (stream_loop feature steps responseText w))) = phases w"
proof (induction feature steps responseText w rule: stream_loop.induct)
  case (3 feature active msg steps responseText w)
  then show ?case
    by (cases msg; cases "stream_blocks feature (case msg of Assistant c \<Rightarrow> c | _ \<Rightarrow> []) responseText w")
       (auto simp: phases_stream_blocks dest: arg_cong [where f = "\<lambda>x. phases (snd x)"])
qed (simp_all add: phases_gateway)

lemma implement_loop_exit:
  "fst (implement_loop feature steps locals w)
     = (if list_ex inactive_at_arrival steps then Break else Stream_end)"
  by (induction feature steps locals w rule: implement_loop.induct)
     (auto split: sdk_message.splits prod.splits)

lemma stream_loop_exit:
  "fst (stream_loop feature steps responseText w)
     = (if list_ex inactive_at_arrival steps then Break else Stream_end)"
  by (induction feature steps responseText w rule: stream_loop.induct)
     (auto split: sdk_message.splits prod.splits)

lemma run_catch_result:
  "fst (run_catch aborted_message label e w)
     = (if is_abort e then Inr \<lparr>passes = False, message = aborted_message\<rparr> else Inl e)"
  "handle (snd (run_catch aborted_message label e w)) = \<lparr>abortController = None, query = None\<rparr>"
  "console_error (snd (run_catch aborted_message label e w))
     = (if is_abort e then console_error w else console_error w @ [(label, e)])"
  "phases (snd (run_catch aborted_message label e w)) = phases w"
  by (simp_all add: run_catch_def set_query_def set_abortController_def console_error_line_def
        phases_def)

lemma features_simps:
  "features (writeToContextFile t w) = features w"
  "features (sendToRenderer ev w) = features w"
  "features (set_abortController v w) = features w"
  "features (set_query v w) = features w"
  by (simp_all add: writeToContextFile_def sendToRenderer_def set_abortController_def set_query_def)

lemma implement_verification_result:
  "fst (implement_verification feature responseText w)
     = Inr \<lparr>passes = verification_passes (find_updated (loadFeatures (features w)) feature),
            message = take 500 responseText\<rparr>"
  by (simp add: implement_verification_def Let_def features_simps)

lemma implement_verification_phases:
  "phases (snd (implement_verification feature responseText w)) = phases w @ [''verification'']"
  by (simp add: implement_verification_def Let_def phases_simps)

lemma resume_check_result:
  "fst (resume_check feature responseText w)
     = Inr \<lparr>passes = verification_passes (find_updated (loadFeatures (features w)) feature),
            message = take 500 responseText\<rparr>"
  by (simp add: resume_check_def Let_def features_simps)

lemma resume_check_phases:
  "phases (snd (resume_check feature responseText w)) = phases w"
  by (simp add: resume_check_def Let_def phases_simps)

lemma commit_finish_result:
  "fst (commit_finish feature responseText w) = Inr \<lparr>passes = True, message = take 500 responseText\<rparr>"
  by (simp add: commit_finish_def Let_def)

lemma commit_finish_phases:
  "phases (snd (commit_finish feature responseText w)) = phases w"
  by (simp add: commit_finish_def Let_def phases_simps)

lemma implementFeature_unfold:
  "\<exists>w1. phases w1 = phases w @ [''planning'', ''action'']
     \<and> implementFeature agent feature w
       = (case implement_loop feature (fst (agent (buildFeaturePrompt feature) implement_options)) ([], False) w1 of
            (Stream_end, (responseText, hasStartedToolUse), w') \<Rightarrow>
              (case snd (agent (buildFeaturePrompt feature) implement_options) of
                 Raises e \<Rightarrow>
                   run_catch ''Auto mode aborted'' ''[FeatureExecutor] Error implementing feature:'' e w'
               | Exhausted \<Rightarrow> implement_verification feature responseText w')
          | (Break, (responseText, hasStartedToolUse), w') \<Rightarrow>
              implement_verification feature responseText w')"
  unfolding implementFeature_def Let_def
  apply (rule exI)
  apply (rule conjI)
   prefer 2
   apply (rule refl)
  apply (simp add: phases_simps)
  done

lemma resume_unfold:
  "\<exists>w1. phases w1 = phases w @ [''action'']
     \<and> resumeFeatureWithContext agent feature previousContext w
       = (case stream_loop feature (fst (agent (buildResumePrompt feature previousContext) resume_options)) [] w1 of
           (Stream_end, responseText, w') \<Rightarrow>
             (case snd (agent (buildResumePrompt feature previousContext) resume_options) of
                Raises e \<Rightarrow>
                  run_catch ''Resume aborted'' ''[FeatureExecutor] Error resuming feature:'' e w'
              | Exhausted \<Rightarrow> resume_check feature responseText w')
         | (Break, responseText, w') \<Rightarrow> resume_check feature responseText w')"
  unfolding resumeFeatureWithContext_def Let_def
  apply (rule exI)
  apply (rule conjI)
   prefer 2
   apply (rule refl)
  apply (simp add: phases_simps)
  done

lemma commit_unfold:
  "\<exists>w1. phases w1 = phases w
     \<and> commitChangesOnly agent feature w
       = (case stream_loop feature (fst (agent (Prompt_literal (commit_prompt feature)) commit_options)) [] w1 of
           (Stream_end, responseText, w') \<Rightarrow>
             (case snd (agent (Prompt_literal (commit_prompt feature)) commit_options) of
                Raises e \<Rightarrow>
                  run_catch ''Commit aborted'' ''[FeatureExecutor] Error committing feature:'' e w'
              | Exhausted \<Rightarrow> commit_finish feature responseText w')
         | (Break, responseText, w') \<Rightarrow> commit_finish feature responseText w')"
  unfolding commitChangesOnly_def Let_def
  apply (rule exI)
  apply (rule conjI)
   prefer 2
   apply (rule refl)
  apply (simp add: phases_simps)
  done

lemma implementFeature_throws:
  assumes "stream_throws (agent (buildFeaturePrompt feature) implement_options) e"
  shows "\<exists>w'. implementFeature agent feature w
           = run_catch ''Auto mode aborted'' ''[FeatureExecutor] Error implementing feature:'' e w'
         \<and> phases w' = phases w @ [''planning'', ''action'']"
proof -
  obtain w1 where p1: "phases w1 = phases w @ [''planning'', ''action'']"
    and eq: "implementFeature agent feature w
       = (case implement_loop feature (fst (agent (buildFeaturePrompt feature) implement_options)) ([], False) w1 of
            (Stream_end, (responseText, hasStartedToolUse), w') \<Rightarrow>
              (case snd (agent (buildFeaturePrompt feature) implement_options) of
                 Raises e \<Rightarrow>
                   run_catch ''Auto mode aborted'' ''[FeatureExecutor] Error implementing feature:'' e w'
               | Exhausted \<Rightarrow> implement_verification feature responseText w')
          | (Break, (responseText, hasStartedToolUse), w') \<Rightarrow>
              implement_verification feature responseText w')"
    using implementFeature_unfold by blast
  obtain x rt h w' where loop:
    "implement_loop feature (fst (agent (buildFeaturePrompt feature) implement_options)) ([], False) w1 = (x, (rt, h), w')"
    by (metis prod.exhaust)
  have "x = Stream_end"
    using implement_loop_exit [of feature "fst (agent (buildFeaturePrompt feature) implement_options)" "([], False)" w1] assms
    by (simp add: loop stream_throws_def loop_breaks_def)
  moreover have "phases w' = phases w1"
    using phases_implement_loop [of feature "fst (agent (buildFeaturePrompt feature) implement_options)" "([], False)" w1]
    by (simp add: loop)
  ultimately have "implementFeature agent feature w
           = run_catch ''Auto mode aborted'' ''[FeatureExecutor] Error implementing feature:'' e w'
         \<and> phases w' = phases w @ [''planning'', ''action'']"
    using assms p1 by (simp add: eq loop stream_throws_def)
  then show ?thesis by blast
qed

lemma implementFeature_completes:
  assumes "\<forall>e. \<not> stream_throws (agent (buildFeaturePrompt feature) implement_options) e"
  shows "\<exists>responseText w'. implementFeature agent feature w
           = implement_verification feature responseText w'
         \<and> phases w' = phases w @ [''planning'', ''action'']"
proof -
  obtain w1 where p1: "phases w1 = phases w @ [''planning'', ''action'']"
    and eq: "implementFeature agent feature w
       = (case implement_loop feature (fst (agent (buildFeaturePrompt feature) implement_options)) ([], False) w1 of
            (Stream_end, (responseText, hasStartedToolUse), w') \<Rightarrow>
              (case snd (agent (buildFeaturePrompt feature) implement_options) of
                 Raises e \<Rightarrow>
                   run_catch ''Auto mode aborted'' ''[FeatureExecutor] Error implementing feature:'' e w'
               | Exhausted \<Rightarrow> implement_verification feature responseText w')
          | (Break, (responseText, hasStartedToolUse), w') \<Rightarrow>
              implement_verification feature responseText w')"
    using implementFeature_unfold by blast
  obtain x rt h w' where loop:
    "implement_loop feature (fst (agent (buildFeaturePrompt feature) implement_options)) ([], False) w1 = (x, (rt, h), w')"
    by (metis prod.exhaust)
  have exit: "x = (if loop_breaks (agent (buildFeaturePrompt feature) implement_options) then Break else Stream_end)"
    using implement_loop_exit [of feature "fst (agent (buildFeaturePrompt feature) implement_options)" "([], False)" w1]
    by (simp add: loop loop_breaks_def)
  have p': "phases w' = phases w1"
    using phases_implement_loop [of feature "fst (agent (buildFeaturePrompt feature) implement_options)" "([], False)" w1]
    by (simp add: loop)
  have "implementFeature agent feature w = implement_verification feature rt w'"
  proof (cases "loop_breaks (agent (buildFeaturePrompt feature) implement_options)")
    case True
    then show ?thesis by (simp add: eq loop exit)
  next
    case False
    with assms have "snd (agent (buildFeaturePrompt feature) implement_options) = Exhausted"
      by (cases "snd (agent (buildFeaturePrompt feature) implement_options)") (auto simp: stream_throws_def)
    with False show ?thesis by (simp add: eq loop exit)
  qed
  then show ?thesis using p' p1 by auto
qed

lemma resume_throws:
  assumes "stream_throws (agent (buildResumePrompt feature previousContext) resume_options) e"
  shows "\<exists>w'. resumeFeatureWithContext agent feature previousContext w
           = run_catch ''Resume aborted'' ''[FeatureExecutor] Error resuming feature:'' e w'
         \<and> phases w' = phases w @ [''action'']"
proof -
  obtain w1 where p1: "phases w1 = phases w @ [''action'']"
    and eq: "resumeFeatureWithContext agent feature previousContext w
       = (case stream_loop feature (fst (agent (buildResumePrompt feature previousContext) resume_options)) [] w1 of
           (Stream_end, responseText, w') \<Rightarrow>
             (case snd (agent (buildResumePrompt feature previousContext) resume_options) of
                Raises e \<Rightarrow>
                  run_catch ''Resume aborted'' ''[FeatureExecutor] Error resuming feature:'' e w'
              | Exhausted \<Rightarrow> resume_check feature responseText w')
         | (Break, responseText, w') \<Rightarrow> resume_check feature responseText w')"
    using resume_unfold by blast
  obtain x rt w' where loop:
    "stream_loop feature (fst (agent (buildResumePrompt feature previousContext) resume_options)) [] w1 = (x, rt, w')"
    by (metis prod.exhaust)
  have "x = Stream_end"
    using stream_loop_exit [of feature "fst (agent (buildResumePrompt feature previousContext) resume_options)" "[]" w1] assms
    by (simp add: loop stream_throws_def loop_breaks_def)
  moreover have "phases w' = phases w1"
    using phases_stream_loop [of feature "fst (agent (buildResumePrompt feature previousContext) resume_options)" "[]" w1]
    by (simp add: loop)
  ultimately have "resumeFeatureWithContext agent feature previousContext w
           = run_catch ''Resume aborted'' ''[FeatureExecutor] Error resuming feature:'' e w'
         \<and> phases w' = phases w @ [''action'']"
    using assms p1 by (simp add: eq loop stream_throws_def)
  then show ?thesis by blast
qed

lemma resume_completes:
  assumes "\<forall>e. \<not> stream_throws (agent (buildResumePrompt feature previousContext) resume_options) e"
  shows "\<exists>responseText w'. resumeFeatureWithContext agent feature previousContext w
           = resume_check feature responseText w'
         \<and> phases w' = phases w @ [''action'']"
proof -
  obtain w1 where p1: "phases w1 = phases w @ [''action'']"
    and eq: "resumeFeatureWithContext agent feature previousContext w
       = (case stream_loop feature (fst (agent (buildResumePrompt feature previousContext) resume_options)) [] w1 of
           (Stream_end, responseText, w') \<Rightarrow>
             (case snd (agent (buildResumePrompt feature previousContext) resume_options) of
                Raises e \<Rightarrow>
                  run_catch ''Resume aborted'' ''[FeatureExecutor] Error resuming feature:'' e w'
              | Exhausted \<Rightarrow> resume_check feature responseText w')
         | (Break, responseText, w') \<Rightarrow> resume_check feature responseText w')"
    using resume_unfold by blast
  obtain x rt w' where loop:
    "stream_loop feature (fst (agent (buildResumePrompt feature previousContext) resume_options)) [] w1 = (x, rt, w')"
    by (metis prod.exhaust)
  have exit: "x = (if loop_breaks (agent (buildResumePrompt feature previousContext) resume_options) then Break else Stream_end)"
    using stream_loop_exit [of feature "fst (agent (buildResumePrompt feature previousContext) resume_options)" "[]" w1]
    by (simp add: loop loop_breaks_def)
  have p': "phases w' = phases w1"
    using phases_stream_loop [of feature "fst (agent (buildResumePrompt feature previousContext) resume_options)" "[]" w1]
    by (simp add: loop)
  have "resumeFeatureWithContext agent feature previousContext w = resume_check feature rt w'"
  proof (cases "loop_breaks (agent (buildResumePrompt feature previousContext) resume_options)")
    case True
    then show ?thesis by (simp add: eq loop exit)
  next
    case False
    with assms have "snd (agent (buildResumePrompt feature previousContext) resume_options) = Exhausted"
      by (cases "snd (agent (buildResumePrompt feature previousContext) resume_options)") (auto simp: stream_throws_def)
    with False show ?thesis by (simp add: eq loop exit)
  qed
  then show ?thesis using p' p1 by auto
qed

lemma commit_throws:
  assumes "stream_throws (agent (Prompt_literal (commit_prompt feature)) commit_options) e"
  shows "\<exists>w'. commitChangesOnly agent feature w
           = run_catch ''Commit aborted'' ''[FeatureExecutor] Error committing feature:'' e w'
         \<and> phases w' = phases w"
proof -
  obtain w1 where p1: "phases w1 = phases w"
    and eq: "commitChangesOnly agent feature w
       = (case stream_loop feature (fst (agent (Prompt_literal (commit_prompt feature)) commit_options)) [] w1 of
           (Stream_end, responseText, w') \<Rightarrow>
             (case snd (agent (Prompt_literal (commit_prompt feature)) commit_options) of
                Raises e \<Rightarrow>
                  run_catch ''Commit aborted'' ''[FeatureExecutor] Error committing feature:'' e w'
              | Exhausted \<Rightarrow> commit_finish feature responseText w')
         | (Break, responseText, w') \<Rightarrow> commit_finish feature responseText w')"
    using commit_unfold by blast
  obtain x rt w' where loop:
    "stream_loop feature (fst (agent (Prompt_literal (commit_prompt feature)) commit_options)) [] w1 = (x, rt, w')"
    by (metis prod.exhaust)
  have "x = Stream_end"
    using stream_loop_exit [of feature "fst (agent (Prompt_literal (commit_prompt feature)) commit_options)" "[]" w1] assms
    by (simp add: loop stream_throws_def loop_breaks_def)
  moreover have "phases w' = phases w1"
    using phases_stream_loop [of feature "fst (agent (Prompt_literal (commit_prompt feature)) commit_options)" "[]" w1]
    by (simp add: loop)
  ultimately have "commitChangesOnly agent feature w
           = run_catch ''Commit aborted'' ''[FeatureExecutor] Error committing feature:'' e w'
         \<and> phases w' = phases w"
    using assms p1 by (simp add: eq loop stream_throws_def)
  then show ?thesis by blast
qed

lemma commit_completes:
  assumes "\<forall>e. \<not> stream_throws (agent (Prompt_literal (commit_prompt feature)) commit_options) e"
  shows "\<exists>responseText w'. commitChangesOnly agent feature w
           = commit_finish feature responseText w'
         \<and> phases w' = phases w"
proof -
  obtain w1 where p1: "phases w1 = phases w"
    and eq: "commitChangesOnly agent feature w
       = (case stream_loop feature (fst (agent (Prompt_literal (commit_prompt feature)) commit_options)) [] w1 of
           (Stream_end, responseText, w') \<Rightarrow>
             (case snd (agent (Prompt_literal (commit_prompt feature)) commit_options) of
                Raises e \<Rightarrow>
                  run_catch ''Commit aborted'' ''[FeatureExecutor] Error committing feature:'' e w'
              | Exhausted \<Rightarrow> commit_finish feature responseText w')
         | (Break, responseText, w') \<Rightarrow> commit_finish feature responseText w')"
    using commit_unfold by blast
  obtain x rt w' where loop:
    "stream_loop feature (fst (agent (Prompt_literal (commit_prompt feature)) commit_options)) [] w1 = (x, rt, w')"
    by (metis prod.exhaust)
  have exit: "x = (if loop_breaks (agent (Prompt_literal (commit_prompt feature)) commit_options) then Break else Stream_end)"
    using stream_loop_exit [of feature "fst (agent (Prompt_literal (commit_prompt feature)) commit_options)" "[]" w1]
    by (simp add: loop loop_breaks_def)
  have p': "phases w' = phases w1"
    using phases_stream_loop [of feature "fst (agent (Prompt_literal (commit_prompt feature)) commit_options)" "[]" w1]
    by (simp add: loop)
  have "commitChangesOnly agent feature w = commit_finish feature rt w'"
  proof (cases "loop_breaks (agent (Prompt_literal (commit_prompt feature)) commit_options)")
    case True
    then show ?thesis by (simp add: eq loop exit)
  next
    case False
    with assms have "snd (agent (Prompt_literal (commit_prompt feature)) commit_options) = Exhausted"
      by (cases "snd (agent (Prompt_literal (commit_prompt feature)) commit_options)") (auto simp: stream_throws_def)
    with False show ?thesis by (simp add: eq loop exit)
  qed
  then show ?thesis using p' p1 by auto
qed

lemma run_catch_summary:
  "fst (run_catch aborted_message label e w)
     = (if is_abort e then Inr \<lparr>passes = False, message = aborted_message\<rparr> else Inl e)
   \<and> handle (snd (run_catch aborted_message label e w)) = \<lparr>abortController = None, query = None\<rparr>
   \<and> (is_abort e \<or> (console_error (snd (run_catch aborted_message label e w)) \<noteq> []
        \<and> last (console_error (snd (run_catch aborted_message label e w))) = (label, e)))"
  by (simp add: run_catch_result)

text \<open>
  C4. In each of the three runs, when the agent's stream throws \<open>e\<close> into the loop: if
  \<open>e\<close> is an abort error (an instance of \<^verbatim>\<open>AbortError\<close>, or named so) the run returns
  the outcome with \<^verbatim>\<open>passes: false\<close> and the run's aborted message (\<^verbatim>\<open>Auto mode
  aborted\<close>, \<^verbatim>\<open>Resume aborted\<close>, \<^verbatim>\<open>Commit aborted\<close>) and nothing is thrown; any other
  error is written with \<^verbatim>\<open>console.error\<close> as the last line of the log and thrown to the
  caller; in both cases the handle's abort controller and query are cleared.
\<close>

theorem runtime_errors_caught_or_rethrown:
  "(stream_throws (agent (buildFeaturePrompt feature) implement_options) e \<longrightarrow>
      fst (implementFeature agent feature w)
        = (if is_abort e then Inr \<lparr>passes = False, message = ''Auto mode aborted''\<rparr> else Inl e)
      \<and> handle (snd (implementFeature agent feature w)) = \<lparr>abortController = None, query = None\<rparr>
      \<and> (is_abort e \<or> (console_error (snd (implementFeature agent feature w)) \<noteq> []
           \<and> last (console_error (snd (implementFeature agent feature w)))
               = (''[FeatureExecutor] Error implementing feature:'', e))))
   \<and> (stream_throws (agent (buildResumePrompt feature previousContext) resume_options) e \<longrightarrow>
      fst (resumeFeatureWithContext agent feature previousContext w)
        = (if is_abort e then Inr \<lparr>passes = False, message = ''Resume aborted''\<rparr> else Inl e)
      \<and> handle (snd (resumeFeatureWithContext agent feature previousContext w)) = \<lparr>abortController = None, query = None\<rparr>
      \<and> (is_abort e \<or> (console_error (snd (resumeFeatureWithContext agent feature previousContext w)) \<noteq> []
           \<and> last (console_error (snd (resumeFeatureWithContext agent feature previousContext w)))
               = (''[FeatureExecutor] Error resuming feature:'', e))))
   \<and> (stream_throws (agent (Prompt_literal (commit_prompt feature)) commit_options) e \<longrightarrow>
      fst (commitChangesOnly agent feature w)
        = (if is_abort e then Inr \<lparr>passes = False, message = ''Commit aborted''\<rparr> else Inl e)
      \<and> handle (snd (commitChangesOnly agent feature w)) = \<lparr>abortController = None, query = None\<rparr>
      \<and> (is_abort e \<or> (console_error (snd (commitChangesOnly agent feature w)) \<noteq> []
           \<and> last (console_error (snd (commitChangesOnly agent feature w)))
               = (''[FeatureExecutor] Error committing feature:'', e))))"
proof (intro conjI impI)
  assume "stream_throws (agent (buildFeaturePrompt feature) implement_options) e"
  then obtain w' where "implementFeature agent feature w
      = run_catch ''Auto mode aborted'' ''[FeatureExecutor] Error implementing feature:'' e w'"
    using implementFeature_throws by blast
  then show "fst (implementFeature agent feature w)
        = (if is_abort e then Inr \<lparr>passes = False, message = ''Auto mode aborted''\<rparr> else Inl e)"
    and "handle (snd (implementFeature agent feature w)) = \<lparr>abortController = None, query = None\<rparr>"
    and "is_abort e \<or> (console_error (snd (implementFeature agent feature w)) \<noteq> []
           \<and> last (console_error (snd (implementFeature agent feature w)))
               = (''[FeatureExecutor] Error implementing feature:'', e))"
    using run_catch_summary [of "''Auto mode aborted''" "''[FeatureExecutor] Error implementing feature:''" e w']
    by simp_all
next
  assume "stream_throws (agent (buildResumePrompt feature previousContext) resume_options) e"
  then obtain w' where "resumeFeatureWithContext agent feature previousContext w
      = run_catch ''Resume aborted'' ''[FeatureExecutor] Error resuming feature:'' e w'"
    using resume_throws by blast
  then show "fst (resumeFeatureWithContext agent feature previousContext w)
        = (if is_abort e then Inr \<lparr>passes = False, message = ''Resume aborted''\<rparr> else Inl e)"
    and "handle (snd (resumeFeatureWithContext agent feature previousContext w)) = \<lparr>abortController = None, query = None\<rparr>"
    and "is_abort e \<or> (console_error (snd (resumeFeatureWithContext agent feature previousContext w)) \<noteq> []
           \<and> last (console_error (snd (resumeFeatureWithContext agent feature previousContext w)))
               = (''[FeatureExecutor] Error resuming feature:'', e))"
    using run_catch_summary [of "''Resume aborted''" "''[FeatureExecutor] Error resuming feature:''" e w']
    by simp_all
next
  assume "stream_throws (agent (Prompt_literal (commit_prompt feature)) commit_options) e"
  then obtain w' where "commitChangesOnly agent feature w
      = run_catch ''Commit aborted'' ''[FeatureExecutor] Error committing feature:'' e w'"
    using commit_throws by blast
  then show "fst (commitChangesOnly agent feature w)
        = (if is_abort e then Inr \<lparr>passes = False, message = ''Commit aborted''\<rparr> else Inl e)"
    and "handle (snd (commitChangesOnly agent feature w)) = \<lparr>abortController = None, query = None\<rparr>"
    and "is_abort e \<or> (console_error (snd (commitChangesOnly agent feature w)) \<noteq> []
           \<and> last (console_error (snd (commitChangesOnly agent feature w)))
               = (''[FeatureExecutor] Error committing feature:'', e))"
    using run_catch_summary [of "''Commit aborted''" "''[FeatureExecutor] Error committing feature:''" e w']
    by simp_all
qed

theorem runtime_errors_caught_or_rethrown_witness:
  "stream_throws (aborting_agent (buildFeaturePrompt feature_1) implement_options) (JsError True ''AbortError'' ''aborted'')
   \<and> fst (implementFeature aborting_agent feature_1 world_1)
       = Inr \<lparr>passes = False, message = ''Auto mode aborted''\<rparr>
   \<and> stream_throws (failing_agent (buildFeaturePrompt feature_1) implement_options) (Error ''socket hang up'')
   \<and> fst (implementFeature failing_agent feature_1 world_1) = Inl (Error ''socket hang up'')
   \<and> handle (snd (implementFeature failing_agent feature_1 world_1))
       = \<lparr>abortController = None, query = None\<rparr>
   \<and> last (console_error (snd (implementFeature failing_agent feature_1 world_1)))
       = (''[FeatureExecutor] Error implementing feature:'', Error ''socket hang up'')"
proof -
  have a: "stream_throws (aborting_agent (buildFeaturePrompt feature_1) implement_options) (JsError True ''AbortError'' ''aborted'')"
    by (simp add: stream_throws_def loop_breaks_def aborting_agent_def)
  have f: "stream_throws (failing_agent (buildFeaturePrompt feature_1) implement_options) (Error ''socket hang up'')"
    by (simp add: stream_throws_def loop_breaks_def failing_agent_def)
  have ia: "is_abort (JsError True ''AbortError'' ''aborted'')"
    by (simp add: is_abort_def)
  have nf: "\<not> is_abort (Error ''socket hang up'')"
    by (simp add: is_abort_def Error_def)
  show ?thesis
    using runtime_errors_caught_or_rethrown
            [where agent = aborting_agent and e = "JsError True ''AbortError'' ''aborted''"
               and feature = feature_1 and w = world_1 and previousContext = "''earlier output''"]
          runtime_errors_caught_or_rethrown
            [where agent = failing_agent and e = "Error ''socket hang up''"
               and feature = feature_1 and w = world_1 and previousContext = "''earlier output''"]
          a f ia nf
    by simp
qed

lemma implement_loop_stops_at_break:
  assumes "\<not> list_ex inactive_at_arrival before"
  shows "implement_loop feature (before @ Yields False msg # rest) locals w
         = (Break, snd (implement_loop feature before locals w))"
  using assms
  by (induction feature before locals w rule: implement_loop.induct)
     (auto split: sdk_message.splits prod.splits)

lemmas run_eval = implementFeature_def implement_verification_def run_catch_def
  commitChangesOnly_def commit_finish_def resumeFeatureWithContext_def resume_check_def
  writeToContextFile_def sendToRenderer_def set_abortController_def set_query_def
  console_error_line_def UpdateFeatureStatus_def UpdateFeatureStatus_try_def
  updateFeatureStatus_def FeatureLoader_update_def FeatureLoader_get_def readFile_def writeFile_def
  find_by_id_def find_updated_def loadFeatures_def verification_passes_def is_abort_def Error_def
  phases_def Let_def

text \<open>
  C2, at a concrete run. The agent marks \<^verbatim>\<open>feature-1\<close> verified through the gateway, the
  handle is then made inactive, and the next message reaches the loop. The loop is left
  by \<^verbatim>\<open>break\<close>, but the run goes on to phase 3: it announces \<^verbatim>\<open>verification\<close>, reads the
  store and returns \<^verbatim>\<open>passes: true\<close> with the (empty) response text, not the aborted
  outcome.
\<close>

theorem inactive_handle_still_verifies:
  "loop_breaks (cancelled_agent (buildFeaturePrompt feature_1) implement_options)
   \<and> fst (implementFeature cancelled_agent feature_1 world_1) = Inr \<lparr>passes = True, message = []\<rparr>
   \<and> phases (snd (implementFeature cancelled_agent feature_1 world_1))
       = [''planning'', ''action'', ''verification'']"
proof -
  have breaks: "loop_breaks (cancelled_agent (buildFeaturePrompt feature_1) implement_options)"
    by (simp add: loop_breaks_def cancelled_agent_def)
  then have "\<forall>e. \<not> stream_throws (cancelled_agent (buildFeaturePrompt feature_1) implement_options) e"
    by (simp add: stream_throws_def)
  with implementFeature_completes [of cancelled_agent feature_1 world_1] obtain rt w'
    where "implementFeature cancelled_agent feature_1 world_1
             = implement_verification feature_1 rt w'"
      and "phases w' = phases world_1 @ [''planning'', ''action'']" by blast
  moreover have "phases world_1 = []"
    by (simp add: phases_def world_1_def)
  ultimately have announced: "phases (snd (implementFeature cancelled_agent feature_1 world_1))
       = [''planning'', ''action'', ''verification'']"
    by (simp add: implement_verification_phases)
  have returned: "fst (implementFeature cancelled_agent feature_1 world_1)
       = Inr \<lparr>passes = True, message = []\<rparr>"
    by (simp add: run_eval cancelled_agent_def feature_1_def feature_2_def world_1_def)
  show ?thesis using breaks returned announced by simp
qed

lemma stream_blocks_text:
  "fst (stream_blocks feature blocks responseText w)
     = fst (stream_blocks feature blocks responseText w')"
proof (induction feature blocks responseText w arbitrary: w' rule: stream_blocks.induct)
  case (1 feature responseText w)
  show ?case by simp
next
  case (2 feature t blocks responseText w)
  show ?case
    unfolding stream_blocks.simps Let_def by (rule "2.IH" [OF refl refl])
next
  case (3 feature tool_name input blocks responseText w)
  show ?case
    unfolding stream_blocks.simps Let_def by (rule "3.IH" [OF refl refl])
next
  case (4 feature blocks responseText w)
  show ?case
    unfolding stream_blocks.simps by (rule "4.IH")
qed

lemma stream_loop_text:
  "fst (snd (stream_loop feature steps responseText w))
     = fst (snd (stream_loop feature steps responseText w'))"
proof (induction feature steps responseText w arbitrary: w' rule: stream_loop.induct)
  case (1 feature responseText w)
  show ?case by simp
next
  case (2 feature featureId status steps responseText w)
  show ?case
    using "2.IH" [of "snd (UpdateFeatureStatus updateFeatureStatus featureId status w')"]
    by simp
next
  case (3 feature active msg steps responseText w)
  show ?case
  proof (cases active)
    case False
    then show ?thesis by simp
  next
    case True
    show ?thesis
    proof (cases msg)
      case (Assistant content)
      obtain rt1 w1 where b1: "stream_blocks feature content responseText w = (rt1, w1)"
        by (metis prod.exhaust)
      obtain rt2 w2 where b2: "stream_blocks feature content responseText w' = (rt2, w2)"
        by (metis prod.exhaust)
      have same: "rt1 = rt2"
        using stream_blocks_text [of feature content responseText w w'] by (simp add: b1 b2)
      have "fst (snd (stream_loop feature steps rt1 w1)) = fst (snd (stream_loop feature steps rt1 w2))"
        using "3.IH"(1) [of content rt1 w1 w2] True Assistant b1 by simp
      then show ?thesis
        by (simp add: True Assistant b1 b2 same)
    next
      case Other_message
      have "fst (snd (stream_loop feature steps responseText w))
            = fst (snd (stream_loop feature steps responseText w'))"
        using "3.IH"(2) [of w'] True Other_message by simp
      then show ?thesis
        by (simp add: True Other_message)
    qed
  qed
qed

lemma commit_completes_text:
  assumes "\<forall>e. \<not> stream_throws (agent (Prompt_literal (commit_prompt feature)) commit_options) e"
  shows "\<exists>w'. commitChangesOnly agent feature w
           = commit_finish feature
               (fst (snd (stream_loop feature (fst (agent (Prompt_literal (commit_prompt feature)) commit_options)) [] w0))) w'"
proof -
  obtain w1 where eq: "commitChangesOnly agent feature w
       = (case stream_loop feature (fst (agent (Prompt_literal (commit_prompt feature)) commit_options)) [] w1 of
           (Stream_end, responseText, w') \<Rightarrow>
             (case snd (agent (Prompt_literal (commit_prompt feature)) commit_options) of
                Raises e \<Rightarrow>
                  run_catch ''Commit aborted'' ''[FeatureExecutor] Error committing feature:'' e w'
              | Exhausted \<Rightarrow> commit_finish feature responseText w')
         | (Break, responseText, w') \<Rightarrow> commit_finish feature responseText w')"
    using commit_unfold by blast
  obtain x rt w' where loop:
    "stream_loop feature (fst (agent (Prompt_literal (commit_prompt feature)) commit_options)) [] w1 = (x, rt, w')"
    by (metis prod.exhaust)
  have exit: "x = (if loop_breaks (agent (Prompt_literal (commit_prompt feature)) commit_options) then Break else Stream_end)"
    using stream_loop_exit [of feature "fst (agent (Prompt_literal (commit_prompt feature)) commit_options)" "[]" w1]
    by (simp add: loop loop_breaks_def)
  have same_text: "fst (snd (stream_loop feature (fst (agent (Prompt_literal (commit_prompt feature)) commit_options)) [] w0)) = rt"
    using stream_loop_text [of feature "fst (agent (Prompt_literal (commit_prompt feature)) commit_options)" "[]" w0 w1]
    by (simp add: loop)
  have "commitChangesOnly agent feature w = commit_finish feature rt w'"
  proof (cases "loop_breaks (agent (Prompt_literal (commit_prompt feature)) commit_options)")
    case True
    then show ?thesis by (simp add: eq loop exit)
  next
    case False
    with assms have "snd (agent (Prompt_literal (commit_prompt feature)) commit_options) = Exhausted"
      by (cases "snd (agent (Prompt_literal (commit_prompt feature)) commit_options)") (auto simp: stream_throws_def)
    with False show ?thesis by (simp add: eq loop exit)
  qed
  then show ?thesis unfolding same_text by blast
qed

lemma commit_outcome_ignores_store:
  "fst (commitChangesOnly agent feature (w\<lparr>features := s\<rparr>))
     = fst (commitChangesOnly agent feature w)"
proof (cases "\<exists>e. stream_throws (agent (Prompt_literal (commit_prompt feature)) commit_options) e")
  case True
  then obtain e where e: "stream_throws (agent (Prompt_literal (commit_prompt feature)) commit_options) e" by blast
  obtain v1 where "commitChangesOnly agent feature (w\<lparr>features := s\<rparr>)
      = run_catch ''Commit aborted'' ''[FeatureExecutor] Error committing feature:'' e v1"
    using commit_throws [where agent = agent and e = e and feature = feature
            and w = "w\<lparr>features := s\<rparr>"] e by blast
  moreover obtain v2 where "commitChangesOnly agent feature w
      = run_catch ''Commit aborted'' ''[FeatureExecutor] Error committing feature:'' e v2"
    using commit_throws [where agent = agent and e = e and feature = feature and w = w] e by blast
  ultimately show ?thesis by (simp add: run_catch_result)
next
  case False
  then have none: "\<forall>e. \<not> stream_throws (agent (Prompt_literal (commit_prompt feature)) commit_options) e" by blast
  let ?rt = "fst (snd (stream_loop feature (fst (agent (Prompt_literal (commit_prompt feature)) commit_options)) [] w))"
  obtain v1 where "commitChangesOnly agent feature (w\<lparr>features := s\<rparr>)
      = commit_finish feature ?rt v1"
    using commit_completes_text [of agent feature "w\<lparr>features := s\<rparr>" w] none by blast
  moreover obtain v2 where "commitChangesOnly agent feature w = commit_finish feature ?rt v2"
    using commit_completes_text [of agent feature w w] none by blast
  ultimately show ?thesis by (simp add: commit_finish_result)
qed

text \<open>
  C6. A commit-only run whose stream completes without a throw returns an outcome with
  \<^verbatim>\<open>passes: true\<close>; what a commit-only run returns or throws is the same whatever
  the feature store holds (it is never read for the result); the tools allowed to its
  agent are \<^verbatim>\<open>Bash\<close>, through which the commit is made, and the status gateway's tool
  that every run carries, so neither \<^verbatim>\<open>Write\<close> nor \<^verbatim>\<open>Edit\<close>; its turn budget is 10.
\<close>

theorem commit_only_always_passes:
  "(stream_completes (agent (Prompt_literal (commit_prompt feature)) commit_options) \<longrightarrow>
      (\<exists>msg. fst (commitChangesOnly agent feature w) = Inr \<lparr>passes = True, message = msg\<rparr>))
   \<and> fst (commitChangesOnly agent feature (w\<lparr>features := s\<rparr>))
       = fst (commitChangesOnly agent feature w)
   \<and> allowedTools commit_options = [''Bash'', ''mcp__automaker-tools__UpdateFeatureStatus'']
   \<and> ''Write'' \<notin> set (allowedTools commit_options)
   \<and> ''Edit'' \<notin> set (allowedTools commit_options)
   \<and> maxTurns commit_options = 10"
proof -
  have "\<exists>msg. fst (commitChangesOnly agent feature w) = Inr \<lparr>passes = True, message = msg\<rparr>"
    if "stream_completes (agent (Prompt_literal (commit_prompt feature)) commit_options)"
  proof -
    from that
    have "\<forall>e. \<not> stream_throws (agent (Prompt_literal (commit_prompt feature)) commit_options) e"
      by (simp add: stream_completes_def stream_throws_def)
    with commit_completes [of agent feature w] obtain rt w'
      where "commitChangesOnly agent feature w = commit_finish feature rt w'" by blast
    then show ?thesis by (simp add: commit_finish_result)
  qed
  moreover have "fst (commitChangesOnly agent feature (w\<lparr>features := s\<rparr>))
       = fst (commitChangesOnly agent feature w)"
    by (rule commit_outcome_ignores_store)
  ultimately show ?thesis by (simp add: commit_options_def)
qed

theorem commit_only_always_passes_witness:
  "stream_completes (quiet_agent (Prompt_literal (commit_prompt feature_1)) commit_options)
   \<and> (\<exists>msg. fst (commitChangesOnly quiet_agent feature_1 world_1)
              = Inr \<lparr>passes = True, message = msg\<rparr>)"
proof -
  have h: "stream_completes (quiet_agent (Prompt_literal (commit_prompt feature_1)) commit_options)"
    by (simp add: stream_completes_def loop_breaks_def quiet_agent_def)
  show ?thesis
    using commit_only_always_passes [of quiet_agent feature_1 world_1] h by blast
qed

lemma resume_phases:
  "phases (snd (resumeFeatureWithContext agent feature previousContext w)) = phases w @ [''action'']"
proof (cases "\<exists>e. stream_throws (agent (buildResumePrompt feature previousContext) resume_options) e")
  case True
  then obtain e where "stream_throws (agent (buildResumePrompt feature previousContext) resume_options) e" by blast
  with resume_throws [where agent = agent and e = e and feature = feature and w = w
         and previousContext = previousContext] obtain w'
    where "resumeFeatureWithContext agent feature previousContext w
      = run_catch ''Resume aborted'' ''[FeatureExecutor] Error resuming feature:'' e w'"
      and "phases w' = phases w @ [''action'']" by blast
  then show ?thesis by (simp add: run_catch_result)
next
  case False
  then have "\<forall>e. \<not> stream_throws (agent (buildResumePrompt feature previousContext) resume_options) e" by blast
  with resume_completes [where agent = agent and feature = feature and w = w
         and previousContext = previousContext] obtain rt w'
    where "resumeFeatureWithContext agent feature previousContext w = resume_check feature rt w'"
      and "phases w' = phases w @ [''action'']" by blast
  then show ?thesis by (simp add: resume_check_phases)
qed

lemma commit_phases:
  "phases (snd (commitChangesOnly agent feature w)) = phases w"
proof (cases "\<exists>e. stream_throws (agent (Prompt_literal (commit_prompt feature)) commit_options) e")
  case True
  then obtain e where "stream_throws (agent (Prompt_literal (commit_prompt feature)) commit_options) e" by blast
  with commit_throws [where agent = agent and e = e and feature = feature and w = w] obtain w'
    where "commitChangesOnly agent feature w
      = run_catch ''Commit aborted'' ''[FeatureExecutor] Error committing feature:'' e w'"
      and "phases w' = phases w" by blast
  then show ?thesis by (simp add: run_catch_result)
next
  case False
  then have "\<forall>e. \<not> stream_throws (agent (Prompt_literal (commit_prompt feature)) commit_options) e" by blast
  with commit_completes [of agent feature w] obtain rt w'
    where "commitChangesOnly agent feature w = commit_finish feature rt w'"
      and "phases w' = phases w" by blast
  then show ?thesis by (simp add: commit_finish_phases)
qed

text \<open>
  C7, as the code has it. A run of \<^verbatim>\<open>implementFeature\<close> whose stream is consumed to
  its end and does not throw announces exactly the phases planning, action, verification,
  in this order; one whose stream throws announces planning and action only. A resumed run announces action only,
  and a commit-only run announces no phase at all. Within one \<^verbatim>\<open>emit\<close> the subscribers
  are called in the order of the set, and a new subscriber is put last.
\<close>

theorem phase_events_by_exit_path:
  "(stream_completes (agent (buildFeaturePrompt feature) implement_options) \<longrightarrow>
      phases (snd (implementFeature agent feature w))
        = phases w @ [''planning'', ''action'', ''verification''])
   \<and> (stream_throws (agent (buildFeaturePrompt feature) implement_options) e \<longrightarrow>
      phases (snd (implementFeature agent feature w)) = phases w @ [''planning'', ''action''])
   \<and> phases (snd (resumeFeatureWithContext agent feature previousContext w)) = phases w @ [''action'']
   \<and> phases (snd (commitChangesOnly agent feature w)) = phases w
   \<and> outside (emit event_type payload b)
       = foldl (delivered event_type payload) (outside b) (subscribers b)
   \<and> (callback_ref callback \<notin> set (map callback_ref (subscribers b)) \<longrightarrow>
        subscribers (subscribe callback b) = subscribers b @ [callback])"
proof (intro conjI impI)
  assume "stream_completes (agent (buildFeaturePrompt feature) implement_options)"
  then have "\<forall>e. \<not> stream_throws (agent (buildFeaturePrompt feature) implement_options) e"
    by (simp add: stream_completes_def stream_throws_def)
  with implementFeature_completes [of agent feature w] obtain rt w'
    where "implementFeature agent feature w = implement_verification feature rt w'"
      and "phases w' = phases w @ [''planning'', ''action'']" by blast
  then show "phases (snd (implementFeature agent feature w))
        = phases w @ [''planning'', ''action'', ''verification'']"
    by (simp add: implement_verification_phases)
next
  assume "stream_throws (agent (buildFeaturePrompt feature) implement_options) e"
  with implementFeature_throws [where agent = agent and e = e and feature = feature and w = w] obtain w'
    where "implementFeature agent feature w
      = run_catch ''Auto mode aborted'' ''[FeatureExecutor] Error implementing feature:'' e w'"
      and "phases w' = phases w @ [''planning'', ''action'']" by blast
  then show "phases (snd (implementFeature agent feature w)) = phases w @ [''planning'', ''action'']"
    by (simp add: run_catch_result)
next
  show "phases (snd (resumeFeatureWithContext agent feature previousContext w)) = phases w @ [''action'']"
    by (rule resume_phases)
next
  show "phases (snd (commitChangesOnly agent feature w)) = phases w"
    by (rule commit_phases)
next
  show "outside (emit event_type payload b)
       = foldl (delivered event_type payload) (outside b) (subscribers b)"
    using emit_loop_world [of "subscribers b" event_type payload "(bus_console_error b, outside b)"]
    by (auto simp: emit_def split: prod.splits)
next
  assume "callback_ref callback \<notin> set (map callback_ref (subscribers b))"
  then show "subscribers (subscribe callback b) = subscribers b @ [callback]"
    by (simp add: subscribe_def)
qed

theorem phase_events_by_exit_path_witness:
  "stream_completes (quiet_agent (buildFeaturePrompt feature_1) implement_options)
   \<and> phases (snd (implementFeature quiet_agent feature_1 world_1))
       = [''planning'', ''action'', ''verification'']
   \<and> stream_throws (aborting_agent (buildFeaturePrompt feature_1) implement_options) (JsError True ''AbortError'' ''aborted'')
   \<and> phases (snd (implementFeature aborting_agent feature_1 world_1)) = [''planning'', ''action'']
   \<and> phases (snd (resumeFeatureWithContext quiet_agent feature_1 ''earlier output'' world_1)) = [''action'']
   \<and> phases (snd (commitChangesOnly quiet_agent feature_1 world_1)) = []
   \<and> outside (emit Feature_progress JNull bus_1) = [''seen'']"
proof -
  have q: "stream_completes (quiet_agent (buildFeaturePrompt feature_1) implement_options)"
    by (simp add: stream_completes_def loop_breaks_def quiet_agent_def)
  have a: "stream_throws (aborting_agent (buildFeaturePrompt feature_1) implement_options) (JsError True ''AbortError'' ''aborted'')"
    by (simp add: stream_throws_def loop_breaks_def aborting_agent_def)
  have p: "phases world_1 = []"
    by (simp add: phases_def world_1_def)
  have d: "foldl (delivered Feature_progress JNull) (outside bus_1) (subscribers bus_1) = [''seen'']"
    by (simp add: delivered_def bus_1_def throwing_subscriber_def recording_subscriber_def)
  show ?thesis
    using phase_events_by_exit_path
            [where agent = quiet_agent and feature = feature_1 and w = world_1
               and previousContext = "''earlier output''"
               and e = "JsError True ''AbortError'' ''aborted''"
               and event_type = Feature_progress and payload = JNull and b = bus_1
               and callback = recording_subscriber]
          phase_events_by_exit_path
            [where agent = aborting_agent and feature = feature_1 and w = world_1
               and previousContext = "''earlier output''"
               and e = "JsError True ''AbortError'' ''aborted''"
               and event_type = Feature_progress and payload = JNull and b = bus_1
               and callback = recording_subscriber]
          q a p d
    by simp
qed

text \<open>
  The claim as stated fails: a run whose stream throws the abort error announces no
  verification phase, and a commit-only run announces neither planning nor action.
\<close>

theorem phase_events_counterexample:
  "phases (snd (implementFeature aborting_agent feature_1 world_1)) = [''planning'', ''action'']
   \<and> ''verification'' \<notin> set (phases (snd (implementFeature aborting_agent feature_1 world_1)))
   \<and> phases (snd (commitChangesOnly quiet_agent feature_1 world_1)) = []"
proof -
  have "stream_throws (aborting_agent (buildFeaturePrompt feature_1) implement_options) (JsError True ''AbortError'' ''aborted'')"
    by (simp add: stream_throws_def loop_breaks_def aborting_agent_def)
  with implementFeature_throws
         [where agent = aborting_agent and e = "JsError True ''AbortError'' ''aborted''"
            and feature = feature_1 and w = world_1]
  obtain w' where "implementFeature aborting_agent feature_1 world_1
      = run_catch ''Auto mode aborted'' ''[FeatureExecutor] Error implementing feature:''
          (JsError True ''AbortError'' ''aborted'') w'"
    and "phases w' = phases world_1 @ [''planning'', ''action'']" by blast
  moreover have p0: "phases world_1 = []"
    by (simp add: phases_def world_1_def)
  ultimately have "phases (snd (implementFeature aborting_agent feature_1 world_1))
      = [''planning'', ''action'']"
    by (simp add: run_catch_result)
  moreover have "phases (snd (commitChangesOnly quiet_agent feature_1 world_1)) = []"
    by (simp add: commit_phases p0)
  ultimately show ?thesis by simp
qed

section \<open>Properties of the Running-Set Registry\<close>

text \<open>
  C3. A run request for a feature that is in the registry is rejected with \<^verbatim>\<open>Busy\<close> and
  leaves the registry as it was (nothing is queued); for a feature that is not in the
  registry the request is accepted and registers it, and a second request for the same
  feature is then rejected, whatever its other arguments. A registered feature is running;
  an unregistered one is not.
\<close>

theorem one_run_per_feature:
  "(isAgentRunning r featureId \<longrightarrow>
      run_admission featureId projectPath isAutoMode r = (Inl Busy, r))
   \<and> (\<not> isAgentRunning r featureId \<longrightarrow>
      fst (run_admission featureId projectPath isAutoMode r) = Inr ()
      \<and> isAgentRunning (snd (run_admission featureId projectPath isAutoMode r)) featureId
      \<and> run_admission featureId projectPath' isAutoMode'
           (snd (run_admission featureId projectPath isAutoMode r))
         = (Inl Busy, snd (run_admission featureId projectPath isAutoMode r)))
   \<and> isAgentRunning (registerRunningAgent featureId projectPath isAutoMode r) featureId
   \<and> \<not> isAgentRunning (unregisterRunningAgent featureId r) featureId"
  by (simp add: run_admission_def isAgentRunning_def registerRunningAgent_def
        unregisterRunningAgent_def)

theorem one_run_per_feature_witness:
  "\<not> isAgentRunning registry_0 ''feature-1''
   \<and> fst (run_admission ''feature-1'' ''/home/dev/shop'' False registry_0) = Inr ()
   \<and> fst (run_admission ''feature-1'' ''/home/dev/shop'' True
            (snd (run_admission ''feature-1'' ''/home/dev/shop'' False registry_0))) = Inl Busy
   \<and> isAgentRunning (snd (run_admission ''feature-1'' ''/home/dev/shop'' False registry_0)) ''feature-1''"
proof -
  have h: "\<not> isAgentRunning registry_0 ''feature-1''"
    by (simp add: isAgentRunning_def registry_0_def)
  show ?thesis
    using one_run_per_feature [of registry_0 "''feature-1''" "''/home/dev/shop''" False
                                  "''/home/dev/shop''" True] h
    by simp
qed

end
